theory Spec2Isabelle
  imports Complex_Main
begin

section \<open>Python values: errors, list objects, the pose table\<close>

text \<open>
  The animation engine of \<^verbatim>\<open>talkinghead/tha3/app/app.py\<close> works on Python lists of
  floats (poses) that are copied, indexed and, in one place, mutated while shared.
  A float is modelled by the \<^typ>\<open>real\<close> it denotes. The arithmetic of the pose
  integrator is rounded to binary64 (\<open>double\<close> below), since what is claimed of it
  depends on the rounding; the other drivers are stated with exact arithmetic. Time
  stamps of \<^verbatim>\<open>time.time_ns()\<close> are \<^typ>\<open>int\<close>, and every raise of the source is a
  value of \<open>py_error\<close>.
\<close>

datatype py_error =
  KeyError | IndexError | TypeError | AttributeError | RenderError | EncodeError

type_synonym pose = "real list"

text \<open>
  List objects live in a store; a reference is the position of the object in the store.
  \<^verbatim>\<open>list(pose)\<close> allocates a new object, \<^verbatim>\<open>xs[i]\<close> and \<^verbatim>\<open>xs[i] = v\<close> raise
  IndexError out of range (indices are never negative here).
\<close>

type_synonym ref = nat
type_synonym heap = "pose list"

definition alloc :: "pose \<Rightarrow> heap \<Rightarrow> ref \<times> heap" where
  "alloc xs h = (length h, h @ [xs])"

definition list_copy :: "ref \<Rightarrow> heap \<Rightarrow> ref \<times> heap" where
  "list_copy r h = alloc (h ! r) h"

definition getitem :: "heap \<Rightarrow> ref \<Rightarrow> nat \<Rightarrow> py_error + real" where
  "getitem h r i = (if i < length (h ! r) then Inr (h ! r ! i) else Inl IndexError)"

definition setitem :: "ref \<Rightarrow> nat \<Rightarrow> real \<Rightarrow> heap \<Rightarrow> py_error + heap" where
  "setitem r i v h =
     (if i < length (h ! r) then Inr (h[r := (h ! r)[i := v]]) else Inl IndexError)"

text \<open>
  Modelled from the spec: \<^verbatim>\<open>posedict_keys\<close> and \<^verbatim>\<open>posedict_key_to_index\<close> come from
  \<^verbatim>\<open>tha3.app.util\<close>, which is not part of the sources. The spec says the channel order
  is fixed and the index/name mapping is a static table: the key list is a parameter
  \<open>keys\<close> of every driver, and the index of a name is its position in that list.
  A missing name raises KeyError, as a dict lookup does.
\<close>

definition posedict_key_to_index :: "string list \<Rightarrow> string \<Rightarrow> py_error + nat" where
  "posedict_key_to_index keys k =
     (case map_of (zip keys [0..<length keys]) k of None \<Rightarrow> Inl KeyError | Some i \<Rightarrow> Inr i)"

text \<open>
  \<^verbatim>\<open>random.uniform(a, b)\<close> is \<^verbatim>\<open>a + (b - a) * random()\<close> with \<^verbatim>\<open>random()\<close> in
  \<open>[0, 1)\<close>; the draw \<open>r\<close> is an input of the model.
\<close>

definition uniform :: "real \<Rightarrow> real \<Rightarrow> real \<Rightarrow> real" where
  "uniform a b r = a + (b - a) * r"

section \<open>Animation state\<close>

text \<open>
  The trackers of \<^verbatim>\<open>Animator.reset_animation_state\<close>, together with the store of the
  list objects the animator works on.
\<close>

record anim =
  lists :: heap
  current_pose :: "ref option"
  last_emotion :: "string option"
  last_emotion_change_timestamp :: "int option"
  last_blink_timestamp :: "int option"
  blink_interval :: "real option"
  last_sway_target_timestamp :: "int option"
  last_sway_target_pose :: "ref option"
  sway_interval :: "real option"
  breathing_epoch :: int

section \<open>Animation drivers\<close>

subsection \<open>Emotion overlay\<close>

text \<open>
  \<^verbatim>\<open>for idx, key in enumerate(posedict_keys)\<close>: the loop of
  \<^verbatim>\<open>apply_emotion_to_pose\<close>, writing into the copy \<open>np\<close>.
\<close>

fun apply_emotion_loop ::
  "(string \<rightharpoonup> real) \<Rightarrow> ref \<Rightarrow> nat \<Rightarrow> string list \<Rightarrow> heap \<Rightarrow> py_error + heap" where
  "apply_emotion_loop d np idx [] h = Inr h"
| "apply_emotion_loop d np idx (key # ks) h =
     (case d key of
        Some v \<Rightarrow>
          (if key \<noteq> ''breathing_index''
           then (case setitem np idx v h of
                   Inl e \<Rightarrow> Inl e
                 | Inr h' \<Rightarrow> apply_emotion_loop d np (Suc idx) ks h')
           else apply_emotion_loop d np (Suc idx) ks h)
      | None \<Rightarrow> apply_emotion_loop d np (Suc idx) ks h)"

definition apply_emotion_to_pose ::
  "string list \<Rightarrow> (string \<rightharpoonup> real) \<Rightarrow> ref \<Rightarrow> 'z anim_scheme \<Rightarrow> py_error + (ref \<times> 'z anim_scheme)" where
  "apply_emotion_to_pose keys emotion_posedict p self =
     (case list_copy p (lists self) of
        (new_pose, h1) \<Rightarrow>
          (case apply_emotion_loop emotion_posedict new_pose 0 keys h1 of
             Inl e \<Rightarrow> Inl e
           | Inr h2 \<Rightarrow> Inr (new_pose, self\<lparr>lists := h2\<rparr>)))"


subsection \<open>Module globals\<close>

text \<open>
  The module-level variables the API functions write and the drivers read, and the
  records the logger receives. A report line is kept as the number it formats.
\<close>

datatype log_entry =
    Warning string
  | Info string
  | Error string
  | RenderReport real
  | EncodeReport real real

record 'pil globals =
  animation_running :: bool
  current_emotion :: string
  is_talking :: bool
  global_reload_image :: "'pil option"
  logged :: "log_entry list"

subsection \<open>Blinking\<close>

fun set_wink_loop :: "string list \<Rightarrow> ref \<Rightarrow> string list \<Rightarrow> heap \<Rightarrow> py_error + heap" where
  "set_wink_loop keys np [] h = Inr h"
| "set_wink_loop keys np (morph_name # ms) h =
     (case posedict_key_to_index keys morph_name of
        Inl e \<Rightarrow> Inl e
      | Inr idx \<Rightarrow>
          (case setitem np idx 1 h of
             Inl e \<Rightarrow> Inl e
           | Inr h' \<Rightarrow> set_wink_loop keys np ms h'))"

text \<open>
  The refractory gate of \<^verbatim>\<open>animate_blinking\<close>: subtracting from a time stamp that is
  still \<^verbatim>\<open>None\<close> raises TypeError.
\<close>

definition blink_gate ::
  "('p, 'g) globals_scheme \<Rightarrow> int \<Rightarrow> bool \<Rightarrow> 'z anim_scheme \<Rightarrow> py_error + bool" where
  "blink_gate g time_now should_blink self =
     (case blink_interval self of
        None \<Rightarrow> Inr should_blink
      | Some bi \<Rightarrow>
          (case last_emotion_change_timestamp self of
             None \<Rightarrow> Inl TypeError
           | Some tc \<Rightarrow>
               (if current_emotion g = ''confusion'' \<and> real_of_int (time_now - tc) / 10 ^ 9 < 10
                then Inr should_blink
                else (case last_blink_timestamp self of
                        None \<Rightarrow> Inl TypeError
                      | Some tb \<Rightarrow>
                          (if real_of_int (time_now - tb) / 10 ^ 9 < bi
                           then Inr False else Inr should_blink)))))"

definition animate_blinking ::
  "string list \<Rightarrow> ('p, 'g) globals_scheme \<Rightarrow> real \<Rightarrow> int \<Rightarrow> real \<Rightarrow> ref \<Rightarrow> 'z anim_scheme
     \<Rightarrow> py_error + (ref \<times> 'z anim_scheme)" where
  "animate_blinking keys g rnd time_now interval_draw p self =
     (case blink_gate g time_now (rnd \<le> 3 / 100) self of
        Inl e \<Rightarrow> Inl e
      | Inr should_blink \<Rightarrow>
          (if \<not> should_blink then Inr (p, self)
           else (case list_copy p (lists self) of
                   (new_pose, h1) \<Rightarrow>
                     (case set_wink_loop keys new_pose
                             [''eye_wink_left_index'', ''eye_wink_right_index''] h1 of
                        Inl e \<Rightarrow> Inl e
                      | Inr h2 \<Rightarrow>
                          Inr (new_pose,
                               self\<lparr>lists := h2,
                                    last_blink_timestamp := Some time_now,
                                    blink_interval := Some (uniform 2 5 interval_draw)\<rparr>)))))"

subsection \<open>Talking\<close>

definition animate_talking ::
  "string list \<Rightarrow> ('p, 'g) globals_scheme \<Rightarrow> real \<Rightarrow> ref \<Rightarrow> 'z anim_scheme
     \<Rightarrow> py_error + (ref \<times> 'z anim_scheme)" where
  "animate_talking keys g rnd p self =
     (if \<not> is_talking g then Inr (p, self)
      else (case list_copy p (lists self) of
              (new_pose, h1) \<Rightarrow>
                (case posedict_key_to_index keys ''mouth_aaa_index'' of
                   Inl e \<Rightarrow> Inl e
                 | Inr idx \<Rightarrow>
                     (case getitem h1 p idx of
                        Inl e \<Rightarrow> Inl e
                      | Inr x0 \<Rightarrow>
                          (let x1 = \<bar>1 - x0\<bar> + uniform (- 2) 2 rnd;
                               x2 = max 0 (min x1 1)
                           in (case setitem new_pose idx x2 h1 of
                                 Inl e \<Rightarrow> Inl e
                               | Inr h2 \<Rightarrow> Inr (new_pose, self\<lparr>lists := h2\<rparr>)))))))"

subsection \<open>Sway\<close>

definition random_max :: real where
  "random_max = 6 / 10"

definition noise_max :: real where
  "noise_max = 2 / 100"

definition SWAYPARTS :: "string list" where
  "SWAYPARTS = [''head_x_index'', ''head_y_index'', ''neck_z_index'',
                ''body_y_index'', ''body_z_index'']"

text \<open>
  The draws of \<^verbatim>\<open>random.uniform\<close> inside the two loops over \<open>SWAYPARTS\<close> are given
  per key (\<open>draw key\<close>); the keys of \<open>SWAYPARTS\<close> are pairwise different, so this is
  the sequence of draws in loop order.
\<close>

fun macrosway_loop ::
  "string list \<Rightarrow> (string \<Rightarrow> real) \<Rightarrow> ref \<Rightarrow> ref \<Rightarrow> string list \<Rightarrow> heap \<Rightarrow> py_error + heap" where
  "macrosway_loop keys draw otp np [] h = Inr h"
| "macrosway_loop keys draw otp np (key # ks) h =
     (case posedict_key_to_index keys key of
        Inl e \<Rightarrow> Inl e
      | Inr idx \<Rightarrow>
          (case getitem h otp idx of
             Inl e \<Rightarrow> Inl e
           | Inr target_value \<Rightarrow>
               (let random_upper = max 0 (random_max - target_value);
                    random_lower = min 0 (- random_max - target_value);
                    random_value = uniform random_lower random_upper (draw key)
                in (case setitem np idx (target_value + random_value) h of
                      Inl e \<Rightarrow> Inl e
                    | Inr h' \<Rightarrow> macrosway_loop keys draw otp np ks h'))))"

definition should_pick_new_sway_target ::
  "('p, 'g) globals_scheme \<Rightarrow> int \<Rightarrow> 'z anim_scheme \<Rightarrow> py_error + bool" where
  "should_pick_new_sway_target g time_now self =
     (if Some (current_emotion g) = last_emotion self
      then (case sway_interval self of
              None \<Rightarrow> Inr True
            | Some si \<Rightarrow>
                (case last_sway_target_timestamp self of
                   None \<Rightarrow> Inl TypeError
                 | Some ts \<Rightarrow>
                     (if real_of_int (time_now - ts) / 10 ^ 9 < si then Inr False else Inr True)))
      else Inr True)"

text \<open>
  \<^verbatim>\<open>macrosway\<close> returns a reference: the cached list object itself when the target is
  kept, the caller's list when there is no cache, or the new copy, which it also stores
  in \<^verbatim>\<open>self.last_sway_target_pose\<close>.
\<close>

definition macrosway ::
  "string list \<Rightarrow> ('p, 'g) globals_scheme \<Rightarrow> int \<Rightarrow> (string \<Rightarrow> real) \<Rightarrow> real \<Rightarrow> ref
     \<Rightarrow> 'z anim_scheme \<Rightarrow> py_error + (ref \<times> 'z anim_scheme)" where
  "macrosway keys g time_now draw interval_draw original_target_pose self =
     (case should_pick_new_sway_target g time_now self of
        Inl e \<Rightarrow> Inl e
      | Inr pick \<Rightarrow>
          (if \<not> pick
           then (case last_sway_target_pose self of
                   Some cached \<Rightarrow> Inr (cached, self)
                 | None \<Rightarrow> Inr (original_target_pose, self))
           else (case list_copy original_target_pose (lists self) of
                   (new_target_pose, h1) \<Rightarrow>
                     (case macrosway_loop keys draw original_target_pose new_target_pose
                             SWAYPARTS h1 of
                        Inl e \<Rightarrow> Inl e
                      | Inr h2 \<Rightarrow>
                          Inr (new_target_pose,
                               self\<lparr>lists := h2,
                                    last_sway_target_pose := Some new_target_pose,
                                    last_sway_target_timestamp := Some time_now,
                                    sway_interval := Some (uniform 5 10 interval_draw)\<rparr>)))))"

text \<open>\<^verbatim>\<open>add_microsway\<close> writes into the list object that \<^verbatim>\<open>macrosway\<close> returned.\<close>

fun add_microsway ::
  "string list \<Rightarrow> (string \<Rightarrow> real) \<Rightarrow> ref \<Rightarrow> string list \<Rightarrow> heap \<Rightarrow> py_error + heap" where
  "add_microsway keys noise ntp [] h = Inr h"
| "add_microsway keys noise ntp (key # ks) h =
     (case posedict_key_to_index keys key of
        Inl e \<Rightarrow> Inl e
      | Inr idx \<Rightarrow>
          (case getitem h ntp idx of
             Inl e \<Rightarrow> Inl e
           | Inr v \<Rightarrow>
               (let x1 = v + uniform (- noise_max) noise_max (noise key);
                    x2 = max (- 1) (min x1 1)
                in (case setitem ntp idx x2 h of
                      Inl e \<Rightarrow> Inl e
                    | Inr h' \<Rightarrow> add_microsway keys noise ntp ks h'))))"

definition compute_sway_target_pose ::
  "string list \<Rightarrow> ('p, 'g) globals_scheme \<Rightarrow> int \<Rightarrow> (string \<Rightarrow> real) \<Rightarrow> real
     \<Rightarrow> (string \<Rightarrow> real) \<Rightarrow> ref \<Rightarrow> 'z anim_scheme \<Rightarrow> py_error + (ref \<times> 'z anim_scheme)" where
  "compute_sway_target_pose keys g time_now draw interval_draw noise original_target_pose self =
     (case macrosway keys g time_now draw interval_draw original_target_pose self of
        Inl e \<Rightarrow> Inl e
      | Inr (new_target_pose, s1) \<Rightarrow>
          (case add_microsway keys noise new_target_pose SWAYPARTS (lists s1) of
             Inl e \<Rightarrow> Inl e
           | Inr h2 \<Rightarrow> Inr (new_target_pose, s1\<lparr>lists := h2\<rparr>)))"

subsection \<open>Breathing\<close>

text \<open>\<^verbatim>\<open>int(x)\<close> of a float truncates toward zero.\<close>

definition py_int :: "real \<Rightarrow> int" where
  "py_int x = (if 0 \<le> x then \<lfloor>x\<rfloor> else \<lceil>x\<rceil>)"

definition breathing_cycle_duration :: real where
  "breathing_cycle_duration = 4"

definition breathing_cycle_pos :: "int \<Rightarrow> 'z anim_scheme \<Rightarrow> real" where
  "breathing_cycle_pos time_now self =
     (real_of_int (time_now - breathing_epoch self) / 10 ^ 9) / breathing_cycle_duration"

definition animate_breathing ::
  "string list \<Rightarrow> int \<Rightarrow> ref \<Rightarrow> 'z anim_scheme \<Rightarrow> py_error + (ref \<times> 'z anim_scheme)" where
  "animate_breathing keys time_now p self =
     (let cycle_pos = breathing_cycle_pos time_now self;
          s1 = (if cycle_pos > 1 then self\<lparr>breathing_epoch := time_now\<rparr> else self);
          phase = cycle_pos - real_of_int (py_int cycle_pos)
      in (case list_copy p (lists s1) of
            (new_pose, h1) \<Rightarrow>
              (case posedict_key_to_index keys ''breathing_index'' of
                 Inl e \<Rightarrow> Inl e
               | Inr idx \<Rightarrow>
                   (case setitem new_pose idx ((sin (phase * pi))\<^sup>2) h1 of
                      Inl e \<Rightarrow> Inl e
                    | Inr h2 \<Rightarrow> Inr (new_pose, s1\<lparr>lists := h2\<rparr>)))))"

subsection \<open>Pose integration\<close>

text \<open>
  Python floats are IEEE 754 binary64 and every operation rounds its exact result to
  the nearest one, ties to the even significand. \<open>double x\<close> is that rounding: the
  spacing at \<open>x\<close> is \<open>2\<close> to the power \<open>e\<close>, 52 below the binary exponent of
  \<open>x\<close>, and not below the spacing of the subnormal numbers. Overflow to infinity is
  left out: pose channels lie in \<open>[-1, 1]\<close>.
\<close>

definition round_half_even :: "real \<Rightarrow> int" where
  "round_half_even y =
     (let f = \<lfloor>y\<rfloor>; r = y - real_of_int f
      in if r < 1 / 2 then f
         else if r > 1 / 2 then f + 1
         else if even f then f else f + 1)"

definition double :: "real \<Rightarrow> real" where
  "double x =
     (if x = 0 then 0
      else (let e = max \<lfloor>log 2 \<bar>x\<bar>\<rfloor> (- 1022) - 52
            in real_of_int (round_half_even (x / 2 powr real_of_int e)) * 2 powr real_of_int e))"

text \<open>
  The relative error of one rounding is at most \<open>unit_roundoff\<close>; in the subnormal
  range the absolute error is at most \<open>underflow_error\<close>.
\<close>

definition unit_roundoff :: real where
  "unit_roundoff = 2 powr (- 53)"

definition underflow_error :: real where
  "underflow_error = 2 powr (- 1075)"

text \<open>
  The loop of \<^verbatim>\<open>interpolate_pose\<close>: the difference, the product and the sum are
  three float operations, each rounded.
\<close>

fun interpolate_loop ::
  "ref \<Rightarrow> ref \<Rightarrow> real \<Rightarrow> ref \<Rightarrow> nat \<Rightarrow> string list \<Rightarrow> heap \<Rightarrow> py_error + heap" where
  "interpolate_loop p target_pose step np idx [] h = Inr h"
| "interpolate_loop p target_pose step np idx (key # ks) h =
     (case getitem h target_pose idx of
        Inl e \<Rightarrow> Inl e
      | Inr tv \<Rightarrow>
          (case getitem h p idx of
             Inl e \<Rightarrow> Inl e
           | Inr pv \<Rightarrow>
               (let delta = double (tv - pv)
                in (case setitem np idx (double (pv + double (step * delta))) h of
                      Inl e \<Rightarrow> Inl e
                    | Inr h' \<Rightarrow> interpolate_loop p target_pose step np (Suc idx) ks h'))))"

definition interpolate_pose ::
  "string list \<Rightarrow> ref \<Rightarrow> ref \<Rightarrow> real \<Rightarrow> 'z anim_scheme \<Rightarrow> py_error + (ref \<times> 'z anim_scheme)" where
  "interpolate_pose keys p target_pose step self =
     (case list_copy p (lists self) of
        (new_pose, h1) \<Rightarrow>
          (case interpolate_loop p target_pose step new_pose 0 keys h1 of
             Inl e \<Rightarrow> Inl e
           | Inr h2 \<Rightarrow> Inr (new_pose, self\<lparr>lists := h2\<rparr>)))"

section \<open>The animator and its collaborators\<close>

text \<open>
  The fields of \<^verbatim>\<open>Animator\<close> beside the trackers. The poser, the postprocessor, the
  image loaders and \<^verbatim>\<open>RunningAverage\<close> are external to the module; they are the
  fields of \<open>collaborators\<close>, with an exception of theirs as \<open>None\<close>, \<open>Inl\<close> or
  \<open>LoadException\<close>.
\<close>

record ('img, 'raw, 'stat) animator = anim +
  source_image :: "'img option"
  result_image :: "'raw option"
  new_frame_available :: bool
  last_report_time :: "int option"
  emotions :: "string \<rightharpoonup> (string \<rightharpoonup> real)"
  render_duration_statistics :: 'stat

text \<open>
  What the conversion of a PIL image in \<^verbatim>\<open>load_image\<close> comes to: a tensor (after a
  resize, when the flag is set), an image without alpha channel, or an exception with
  its message.
\<close>

datatype 'img load_result = Loaded bool 'img | NoAlpha bool | LoadException string

record ('pil, 'img, 'raw, 'stat, 'bytes) collaborators =
  posedict_keys :: "string list"
  posedict_to_pose :: "(string \<rightharpoonup> real) \<Rightarrow> pose"
  open_image :: "string option \<Rightarrow> string + 'pil"
  convert_image :: "'pil \<Rightarrow> 'img load_result"
  render_pose :: "'img \<Rightarrow> pose \<Rightarrow> 'raw option"
  add_datapoint :: "real \<Rightarrow> 'stat \<Rightarrow> 'stat"
  average :: "'stat \<Rightarrow> real"
  png_encode :: "'raw \<Rightarrow> 'bytes option"

definition log_append :: "log_entry list \<Rightarrow> ('p, 'g) globals_scheme \<Rightarrow> ('p, 'g) globals_scheme" where
  "log_append es g = g\<lparr>logged := logged g @ es\<rparr>"

definition load_image ::
  "('p, 'img, 'raw, 'stat, 'bytes) collaborators \<Rightarrow> string option \<Rightarrow> ('p, 'g) globals_scheme
     \<Rightarrow> ('img, 'raw, 'stat, 'z) animator_scheme
     \<Rightarrow> ('p, 'g) globals_scheme \<times> ('img, 'raw, 'stat, 'z) animator_scheme" where
  "load_image P file_path g self =
     (case (case global_reload_image g of
              Some pil \<Rightarrow> convert_image P pil
            | None \<Rightarrow> (case open_image P file_path of
                         Inl msg \<Rightarrow> LoadException msg
                       | Inr pil \<Rightarrow> convert_image P pil)) of
        Loaded resized img \<Rightarrow>
          ((log_append (if resized then [Info ''Resizing Char Card to work''] else []) g)
             \<lparr>global_reload_image := None\<rparr>,
           self\<lparr>source_image := Some img\<rparr>)
      | NoAlpha resized \<Rightarrow>
          ((log_append ((if resized then [Info ''Resizing Char Card to work''] else [])
                        @ [Error ''load_image: image must have alpha channel'']) g)
             \<lparr>global_reload_image := None\<rparr>,
           self\<lparr>source_image := None\<rparr>)
      | LoadException msg \<Rightarrow>
          ((log_append [Error (''load_image: '' @ msg)] g)\<lparr>global_reload_image := None\<rparr>, self))"

subsection \<open>One render tick\<close>

text \<open>
  The clock readings and random draws of one call of \<^verbatim>\<open>render_animation_frame\<close>, in
  the order the source takes them.
\<close>

record tick_env =
  time_render_start :: int
  sway_time_now :: int
  sway_draw :: "string \<Rightarrow> real"
  sway_interval_draw :: real
  noise_draw :: "string \<Rightarrow> real"
  blink_draw :: real
  blink_time_now :: int
  blink_interval_draw :: real
  talk_draw :: real
  breathing_time_now :: int
  time_render_end :: int

text \<open>
  Lines 597 to 613: the pose is initialised from the active preset at the first tick,
  then the drivers run in their fixed order. An exception ends the tick (and the
  animator thread) with \<open>Inl\<close>.
\<close>

definition update_pose ::
  "('p, 'img, 'raw, 'stat, 'bytes) collaborators \<Rightarrow> tick_env \<Rightarrow> ('p, 'g) globals_scheme
     \<Rightarrow> ('img, 'raw, 'stat, 'z) animator_scheme
     \<Rightarrow> py_error + ('img, 'raw, 'stat, 'z) animator_scheme" where
  "update_pose P env g self =
     (case emotions self (current_emotion g) of
        None \<Rightarrow> Inl KeyError
      | Some emotion_posedict \<Rightarrow>
          (let keys = posedict_keys P;
               s1 = (case current_pose self of
                       Some _ \<Rightarrow> self
                     | None \<Rightarrow>
                         (case alloc (posedict_to_pose P emotion_posedict) (lists self) of
                            (r, h) \<Rightarrow> self\<lparr>lists := h, current_pose := Some r\<rparr>));
               s2 = (if Some (current_emotion g) \<noteq> last_emotion s1
                     then s1\<lparr>last_emotion_change_timestamp := Some (time_render_start env)\<rparr>
                     else s1)
           in (case current_pose s2 of
                 None \<Rightarrow> Inl TypeError
               | Some cp \<Rightarrow>
           (case apply_emotion_to_pose keys emotion_posedict cp s2 of
              Inl e \<Rightarrow> Inl e
            | Inr (t1, s3) \<Rightarrow>
           (case compute_sway_target_pose keys g (sway_time_now env) (sway_draw env)
                   (sway_interval_draw env) (noise_draw env) t1 s3 of
              Inl e \<Rightarrow> Inl e
            | Inr (t2, s4) \<Rightarrow>
           (case interpolate_pose keys cp t2 (double (1 / 10)) s4 of
              Inl e \<Rightarrow> Inl e
            | Inr (p1, s5) \<Rightarrow>
           (case animate_blinking keys g (blink_draw env) (blink_time_now env)
                   (blink_interval_draw env) p1 (s5\<lparr>current_pose := Some p1\<rparr>) of
              Inl e \<Rightarrow> Inl e
            | Inr (p2, s6) \<Rightarrow>
           (case animate_talking keys g (talk_draw env) p2 (s6\<lparr>current_pose := Some p2\<rparr>) of
              Inl e \<Rightarrow> Inl e
            | Inr (p3, s7) \<Rightarrow>
           (case animate_breathing keys (breathing_time_now env) p3
                   (s7\<lparr>current_pose := Some p3\<rparr>) of
              Inl e \<Rightarrow> Inl e
            | Inr (p4, s8) \<Rightarrow>
                Inr (s8\<lparr>current_pose := Some p4,
                         last_emotion := Some (current_emotion g)\<rparr>))))))))))"

definition render_animation_frame ::
  "('p, 'img, 'raw, 'stat, 'bytes) collaborators \<Rightarrow> tick_env \<Rightarrow> ('p, 'g) globals_scheme
     \<Rightarrow> ('img, 'raw, 'stat, 'z) animator_scheme
     \<Rightarrow> py_error + (('p, 'g) globals_scheme \<times> ('img, 'raw, 'stat, 'z) animator_scheme)" where
  "render_animation_frame P env g self =
     (if \<not> animation_running g then Inr (g, self)
      else if new_frame_available self then Inr (g, self)
      else (case (if global_reload_image g \<noteq> None then load_image P None g self
                  else (g, self)) of
              (g1, s1) \<Rightarrow>
                (case source_image s1 of
                   None \<Rightarrow> Inr (g1, s1)
                 | Some src \<Rightarrow>
                     (case update_pose P env g1 s1 of
                        Inl e \<Rightarrow> Inl e
                      | Inr s2 \<Rightarrow>
                          (case current_pose s2 of
                             None \<Rightarrow> Inl TypeError
                           | Some cp \<Rightarrow>
                               (case render_pose P src (lists s2 ! cp) of
                                  None \<Rightarrow> Inl RenderError
                                | Some output_image \<Rightarrow>
                                    (let time_now = time_render_end env;
                                         s3 = (if source_image s2 \<noteq> None
                                               then s2\<lparr>render_duration_statistics :=
                                                         add_datapoint P
                                                           (real_of_int (time_now - time_render_start env) / 10 ^ 9)
                                                           (render_duration_statistics s2)\<rparr>
                                               else s2);
                                         s4 = s3\<lparr>result_image := Some output_image,
                                                 new_frame_available := True\<rparr>
                                     in (if animation_running g1
                                            \<and> (case last_report_time s4 of
                                                  None \<Rightarrow> True
                                                | Some t \<Rightarrow> time_now - t > 5000000000)
                                         then Inr (log_append
                                                     [RenderReport (average P (render_duration_statistics s4))] g1,
                                                   s4\<lparr>last_report_time := Some time_now\<rparr>)
                                         else Inr (g1, s4)))))))))"

section \<open>The API: setEmotion\<close>

text \<open>
  The items of the sentiment result have a label and a score. The running maximum
  starts at \<^verbatim>\<open>float("-inf")\<close>, which is \<open>None\<close> here: below every score.
\<close>

record emotion_item =
  label :: string
  score :: real

fun highest_loop ::
  "emotion_item list \<Rightarrow> real option \<Rightarrow> string option \<Rightarrow> real option \<times> string option" where
  "highest_loop [] highest_score highest_label = (highest_score, highest_label)"
| "highest_loop (item # rest) highest_score highest_label =
     (if (case highest_score of None \<Rightarrow> True | Some s \<Rightarrow> score item > s)
      then highest_loop rest (Some (score item)) (Some (label item))
      else highest_loop rest highest_score highest_label)"

text \<open>The text an f-string puts for a label that may be \<^verbatim>\<open>None\<close>.\<close>

definition py_str :: "string option \<Rightarrow> string" where
  "py_str l = (case l of None \<Rightarrow> ''None'' | Some s \<Rightarrow> s)"

definition quoted :: "string \<Rightarrow> string" where
  "quoted s = CHR 0x27 # s @ [CHR 0x27]"

text \<open>
  The module state \<^verbatim>\<open>setEmotion\<close> works on: the globals and the animator instance,
  which is \<^verbatim>\<open>None\<close> until \<^verbatim>\<open>launch\<close> has run.
\<close>

record ('pil, 'img, 'raw, 'stat) module = "'pil globals" +
  global_animator_instance :: "('img, 'raw, 'stat) animator option"

definition setEmotion ::
  "emotion_item list \<Rightarrow> ('p, 'img, 'raw, 'stat, 'm) module_scheme
     \<Rightarrow> py_error + (string \<times> ('p, 'img, 'raw, 'stat, 'm) module_scheme)" where
  "setEmotion emotion m =
     (case highest_loop emotion None None of
        (highest_score, highest_label) \<Rightarrow>
          (case global_animator_instance m of
             None \<Rightarrow> Inl AttributeError
           | Some a \<Rightarrow>
               (case (if (case highest_label of
                            None \<Rightarrow> True
                          | Some l \<Rightarrow> emotions a l = None)
                      then (log_append
                              [Warning (''setEmotion: emotion '' @ quoted (py_str highest_label)
                                        @ '' does not exist, setting to '' @ quoted ''neutral'')] m,
                            ''neutral'')
                      else (m, py_str highest_label)) of
                  (m1, final_label) \<Rightarrow>
                    Inr (''emotion set to '' @ final_label,
                         (log_append [Info (''setEmotion: applying emotion '' @ final_label)] m1)
                           \<lparr>current_emotion := final_label\<rparr>))))"

section \<open>The encoder\<close>

text \<open>
  An encoded frame is a bytes object; \<^verbatim>\<open>id(image_bytes)\<close> is its \<open>obj_id\<close>.
  The statistics and the report time are locals of \<^verbatim>\<open>encoder_update\<close>.
\<close>

record 'bytes encoded =
  obj_id :: nat
  content :: 'bytes

record ('bytes, 'stat) encoder =
  image_bytes :: "'bytes encoded option"
  enc_last_report_time :: "int option"
  encode_duration_statistics :: 'stat
  wait_duration_statistics :: 'stat

text \<open>
  What one iteration of the encoder loop reads from outside: the clock, the identity of
  the bytes object it allocates, and, at each poll of the wait loop, the values of
  \<^verbatim>\<open>global_latest_frame_sent\<close> and of \<^verbatim>\<open>self._terminated\<close>, which other threads write.
\<close>

record enc_env =
  terminated_at_loop_head :: bool
  time_encode_start :: int
  new_obj_id :: nat
  time_wait_start :: int
  polls :: "(nat option \<times> bool) list"
  time_after_wait :: int
  time_fps :: int
  time_log :: int

text \<open>
  \<^verbatim>\<open>while global_latest_frame_sent != id(previous_frame) and not self._terminated\<close>:
  the loop sleeps through the polls that keep it waiting and returns the poll that ends
  it; \<open>None\<close> when the polls given end before the wait does.
\<close>

fun wait_until_sent :: "nat \<Rightarrow> (nat option \<times> bool) list \<Rightarrow> (nat option \<times> bool) option" where
  "wait_until_sent previous_id [] = None"
| "wait_until_sent previous_id ((latest_frame_sent, terminated) # rest) =
     (if latest_frame_sent \<noteq> Some previous_id \<and> \<not> terminated
      then wait_until_sent previous_id rest
      else Some (latest_frame_sent, terminated))"

definition encoder_report ::
  "('p, 'img, 'raw, 'stat, 'bytes) collaborators \<Rightarrow> enc_env \<Rightarrow> ('p, 'g) globals_scheme
     \<Rightarrow> ('bytes, 'stat) encoder \<Rightarrow> ('p, 'g) globals_scheme \<times> ('bytes, 'stat) encoder" where
  "encoder_report P env g self =
     (if animation_running g
         \<and> (case enc_last_report_time self of
               None \<Rightarrow> True
             | Some t \<Rightarrow> time_log env - t > 5000000000)
      then (log_append [EncodeReport (average P (encode_duration_statistics self))
                                      (average P (wait_duration_statistics self))] g,
            self\<lparr>enc_last_report_time := Some (time_log env)\<rparr>)
      else (g, self))"

text \<open>
  The body of the loop of \<^verbatim>\<open>encoder_update\<close>. The result is \<open>None\<close> while the wait
  loop has not ended, \<open>Inl\<close> when encoding raised (the thread stops), and otherwise the
  globals, the animator and the encoder after the iteration.
\<close>

definition encoder_iteration ::
  "('p, 'img, 'raw, 'stat, 'bytes) collaborators \<Rightarrow> enc_env \<Rightarrow> ('p, 'g) globals_scheme
     \<Rightarrow> ('img, 'raw, 'stat, 'z) animator_scheme \<Rightarrow> ('bytes, 'stat) encoder
     \<Rightarrow> (py_error + (('p, 'g) globals_scheme \<times> ('img, 'raw, 'stat, 'z) animator_scheme
                        \<times> ('bytes, 'stat) encoder)) option" where
  "encoder_iteration P env g a self =
     (if \<not> new_frame_available a
      then (case encoder_report P env g self of (g', self') \<Rightarrow> Some (Inr (g', a, self')))
      else
        (let image_rgba = result_image a;
             a1 = a\<lparr>new_frame_available := False\<rparr>
         in (case (case image_rgba of
                     None \<Rightarrow> Inl TypeError
                   | Some raw \<Rightarrow> (case png_encode P raw of
                                   None \<Rightarrow> Inl EncodeError
                                 | Some bytes \<Rightarrow> Inr bytes)) of
               Inl e \<Rightarrow> Some (Inl e)
             | Inr bytes \<Rightarrow>
                 (let new_frame = \<lparr>obj_id = new_obj_id env, content = bytes\<rparr>
                  in (case (case image_bytes self of
                              None \<Rightarrow> Some 0
                            | Some previous_frame \<Rightarrow>
                                (case wait_until_sent (obj_id previous_frame) (polls env) of
                                   None \<Rightarrow> None
                                 | Some _ \<Rightarrow>
                                     Some (real_of_int (time_after_wait env - time_wait_start env)
                                             / 10 ^ 9))) of
                        None \<Rightarrow> None
                      | Some wait_elapsed_sec \<Rightarrow>
                          (let s1 = self\<lparr>image_bytes := Some new_frame\<rparr>;
                               walltime_elapsed_sec =
                                 real_of_int (time_fps env - time_encode_start env) / 10 ^ 9;
                               encode_elapsed_sec = walltime_elapsed_sec - wait_elapsed_sec;
                               s2 = s1\<lparr>encode_duration_statistics :=
                                         add_datapoint P encode_elapsed_sec (encode_duration_statistics s1),
                                       wait_duration_statistics :=
                                         add_datapoint P wait_elapsed_sec (wait_duration_statistics s1)\<rparr>
                           in (case encoder_report P env g s2 of
                                 (g', s3) \<Rightarrow> Some (Inr (g', a1, s3)))))))))"

text \<open>
  \<^verbatim>\<open>while not self._terminated\<close>: the loop runs over what each iteration finds (its
  readings, and the globals and the animator as the other threads left them) and yields
  the states after each completed iteration. It ends at the termination flag, at an
  exception, or where the readings given end.
\<close>

fun encoder_update ::
  "('p, 'img, 'raw, 'stat, 'bytes) collaborators
     \<Rightarrow> (enc_env \<times> ('p, 'g) globals_scheme \<times> ('img, 'raw, 'stat, 'z) animator_scheme) list
     \<Rightarrow> ('bytes, 'stat) encoder
     \<Rightarrow> (('p, 'g) globals_scheme \<times> ('img, 'raw, 'stat, 'z) animator_scheme
          \<times> ('bytes, 'stat) encoder) list" where
  "encoder_update P [] self = []"
| "encoder_update P ((env, g, a) # rest) self =
     (if terminated_at_loop_head env then []
      else (case encoder_iteration P env g a self of
              None \<Rightarrow> []
            | Some (Inl e) \<Rightarrow> []
            | Some (Inr (g', a', self')) \<Rightarrow> (g', a', self') # encoder_update P rest self'))"

text \<open>
  The encoder states of a run, in order: the initial state, then the state after each
  completed iteration.
\<close>

definition encoder_states ::
  "('bytes, 'stat) encoder \<Rightarrow> ('g \<times> 'a \<times> ('bytes, 'stat) encoder) list \<Rightarrow> ('bytes, 'stat) encoder list" where
  "encoder_states self trace = self # map (\<lambda>(g, a, s). s) trace"

section \<open>Example data\<close>

text \<open>A small pose table and an animator in its reset state, for concrete runs.\<close>

definition example_keys :: "string list" where
  "example_keys = [''head_x_index'', ''head_y_index'', ''neck_z_index'', ''body_y_index'',
                   ''body_z_index'', ''mouth_aaa_index'', ''breathing_index'',
                   ''eye_wink_left_index'', ''eye_wink_right_index'']"

definition example_anim :: "heap \<Rightarrow> anim" where
  "example_anim h =
     \<lparr>lists = h, current_pose = None, last_emotion = None,
      last_emotion_change_timestamp = None, last_blink_timestamp = None,
      blink_interval = None, last_sway_target_timestamp = None,
      last_sway_target_pose = None, sway_interval = None, breathing_epoch = 0\<rparr>"

definition talking_globals :: "bool \<Rightarrow> unit globals" where
  "talking_globals b =
     \<lparr>animation_running = True, current_emotion = ''neutral'', is_talking = b,
      global_reload_image = None, logged = []\<rparr>"

definition breathing_start :: anim where
  "breathing_start = example_anim [[0]]"

definition sway_start :: anim where
  "sway_start = example_anim [[9 / 10, 0, 0, 0, 0]]"

definition drift_start :: anim where
  "drift_start = example_anim [[0, 0, 0, 0, 0]]"

definition drift_state :: "real \<Rightarrow> anim" where
  "drift_state v =
     drift_start\<lparr>lists := [[0, 0, 0, 0, 0], [v, v, v, v, v]],
                  last_emotion := Some ''neutral'',
                  last_sway_target_pose := Some 1,
                  last_sway_target_timestamp := Some 0,
                  sway_interval := Some 5\<rparr>"

definition unknown_label_warning :: "string \<Rightarrow> log_entry" where
  "unknown_label_warning l =
     Warning (''setEmotion: emotion '' @ quoted l @ '' does not exist, setting to '' @ quoted ''neutral'')"

definition example_animator :: "(unit, unit, unit) animator" where
  "example_animator =
     \<lparr>lists = [], current_pose = None, last_emotion = None,
      last_emotion_change_timestamp = None, last_blink_timestamp = None,
      blink_interval = None, last_sway_target_timestamp = None,
      last_sway_target_pose = None, sway_interval = None, breathing_epoch = 0,
      source_image = None, result_image = None, new_frame_available = False,
      last_report_time = None,
      emotions = [''neutral'' \<mapsto> Map.empty, ''joy'' \<mapsto> [''mouth_aaa_index'' \<mapsto> 1]],
      render_duration_statistics = ()\<rparr>"

definition example_module :: "(unit, unit, unit, unit) module" where
  "example_module =
     \<lparr>animation_running = True, current_emotion = ''joy'', is_talking = False,
      global_reload_image = None, logged = [],
      global_animator_instance = Some example_animator\<rparr>"

text \<open>A render tick on a table of six channels, from the reset state.\<close>

definition tick_keys :: "string list" where
  "tick_keys = [''head_x_index'', ''head_y_index'', ''neck_z_index'',
                ''body_y_index'', ''body_z_index'', ''breathing_index'']"

definition tick_collaborators :: "(unit, unit, pose, real list, pose) collaborators" where
  "tick_collaborators =
     \<lparr>posedict_keys = tick_keys,
      posedict_to_pose = (\<lambda>d. [0, 0, 0, 0, 0, 0]),
      open_image = (\<lambda>path. Inr ()),
      convert_image = (\<lambda>pil. Loaded False ()),
      render_pose = (\<lambda>img p. Some p),
      add_datapoint = (\<lambda>x xs. xs @ [x]),
      average = (\<lambda>xs. if xs = [] then 0 else sum_list xs / real (length xs)),
      png_encode = (\<lambda>raw. Some raw)\<rparr>"

definition tick_readings :: tick_env where
  "tick_readings =
     \<lparr>time_render_start = 0, sway_time_now = 0, sway_draw = (\<lambda>key. 1 / 2),
      sway_interval_draw = 0, noise_draw = (\<lambda>key. 1 / 2), blink_draw = 1 / 2,
      blink_time_now = 0, blink_interval_draw = 0, talk_draw = 1 / 2,
      breathing_time_now = 0, time_render_end = 20000000\<rparr>"

definition tick_animator :: "(unit, pose, real list) animator" where
  "tick_animator =
     \<lparr>lists = [], current_pose = None, last_emotion = None,
      last_emotion_change_timestamp = None, last_blink_timestamp = None,
      blink_interval = None, last_sway_target_timestamp = None,
      last_sway_target_pose = None, sway_interval = None, breathing_epoch = 0,
      source_image = Some (), result_image = None, new_frame_available = False,
      last_report_time = None,
      emotions = [''neutral'' \<mapsto> Map.empty],
      render_duration_statistics = []\<rparr>"

abbreviation rest_pose :: pose where
  "rest_pose \<equiv> [0, 0, 0, 0, 0, 0]"

definition tick_globals :: "unit globals" where
  "tick_globals = talking_globals False"

definition tick_posed :: "(unit, pose, real list) animator" where
  "tick_posed =
     tick_animator\<lparr>lists := [rest_pose, rest_pose, rest_pose, rest_pose, rest_pose],
                     current_pose := Some 4,
                     last_emotion := Some ''neutral'',
                     last_emotion_change_timestamp := Some 0,
                     last_sway_target_timestamp := Some 0,
                     last_sway_target_pose := Some 2,
                     sway_interval := Some 5\<rparr>"

definition tick_published :: "(unit, pose, real list) animator" where
  "tick_published =
     tick_posed\<lparr>render_duration_statistics := [1 / 50],
                  result_image := Some rest_pose,
                  new_frame_available := True,
                  last_report_time := Some 20000000\<rparr>"

text \<open>A run of the encoder over two rendered frames.\<close>

definition enc_start :: "(pose, real list) encoder" where
  "enc_start =
     \<lparr>image_bytes = None, enc_last_report_time = None,
      encode_duration_statistics = [], wait_duration_statistics = []\<rparr>"

definition enc_readings :: "nat \<Rightarrow> (nat option \<times> bool) list \<Rightarrow> enc_env" where
  "enc_readings n ps =
     \<lparr>terminated_at_loop_head = False, time_encode_start = 0, new_obj_id = n,
      time_wait_start = 0, polls = ps, time_after_wait = 0, time_fps = 0, time_log = 0\<rparr>"

definition enc_inputs ::
  "(enc_env \<times> unit globals \<times> (unit, pose, real list) animator) list" where
  "enc_inputs =
     [(enc_readings 7 [], tick_globals, tick_published),
      (enc_readings 8 [(None, False), (Some 7, False)], tick_globals, tick_published)]"

definition enc_frame :: "nat \<Rightarrow> pose encoded" where
  "enc_frame n = \<lparr>obj_id = n, content = rest_pose\<rparr>"

text \<open>A pose one float below its target.\<close>

definition stall_start :: anim where
  "stall_start = example_anim [[1 / 2], [1 / 2 + 2 powr (- 53)]]"

section \<open>Properties of the store and of the pose table\<close>

lemma setitem_Inr:
  "setitem r i v h = Inr h' \<longleftrightarrow> i < length (h ! r) \<and> h' = h[r := (h ! r)[i := v]]"
  by (auto simp: setitem_def)

lemma setitem_Inl:
  "setitem r i v h = Inl e \<longleftrightarrow> \<not> i < length (h ! r) \<and> e = IndexError"
  by (auto simp: setitem_def)

lemma getitem_Inr:
  "getitem h r i = Inr x \<longleftrightarrow> i < length (h ! r) \<and> x = h ! r ! i"
  by (auto simp: getitem_def)

lemma key_index_Inr:
  assumes "distinct keys"
  shows "posedict_key_to_index keys k = Inr i \<longleftrightarrow> i < length keys \<and> keys ! i = k"
proof -
  have d: "distinct (map fst (zip keys [0..<length keys]))" using assms by simp
  have "map_of (zip keys [0..<length keys]) k = Some i \<longleftrightarrow> (k, i) \<in> set (zip keys [0..<length keys])"
    using d by (metis map_of_SomeD map_of_is_SomeI)
  also have "\<dots> \<longleftrightarrow> i < length keys \<and> keys ! i = k"
    by (auto simp: set_zip)
  finally show ?thesis
    by (auto simp: posedict_key_to_index_def split: option.splits)
qed

lemma apply_emotion_loop_spec:
  "np < length h \<Longrightarrow> idx + length ks \<le> length (h ! np) \<Longrightarrow>
   \<exists>xs. apply_emotion_loop d np idx ks h = Inr (h[np := xs]) \<and> length xs = length (h ! np) \<and>
     (\<forall>j < length xs. xs ! j =
        (if idx \<le> j \<and> j < idx + length ks \<and> ks ! (j - idx) \<in> dom d \<and> ks ! (j - idx) \<noteq> ''breathing_index''
         then the (d (ks ! (j - idx))) else h ! np ! j))"
proof (induction ks arbitrary: idx h)
  case Nil
  show ?case by (rule exI[of _ "h ! np"]) simp
next
  case (Cons key ks)
  show ?case
  proof (cases "key \<in> dom d \<and> key \<noteq> ''breathing_index''")
    case False
    from Cons.IH[of h "Suc idx"] Cons.prems obtain xs where
      xs: "apply_emotion_loop d np (Suc idx) ks h = Inr (h[np := xs])" "length xs = length (h ! np)"
        "\<forall>j < length xs. xs ! j =
        (if Suc idx \<le> j \<and> j < Suc idx + length ks \<and> ks ! (j - Suc idx) \<in> dom d \<and> ks ! (j - Suc idx) \<noteq> ''breathing_index''
         then the (d (ks ! (j - Suc idx))) else h ! np ! j)" by auto
    have eq: "apply_emotion_loop d np idx (key # ks) h = Inr (h[np := xs])"
      using False xs(1) by (auto split: option.splits)
    show ?thesis
    proof (intro exI[of _ xs] conjI allI impI)
      fix j assume "j < length xs"
      then show "xs ! j = (if idx \<le> j \<and> j < idx + length (key # ks) \<and> (key # ks) ! (j - idx) \<in> dom d \<and> (key # ks) ! (j - idx) \<noteq> ''breathing_index''
         then the (d ((key # ks) ! (j - idx))) else h ! np ! j)"
        using xs(3) False by (cases "j = idx") (auto simp: nth_Cons' Suc_diff_le)
    qed (use eq xs(2) in auto)
  next
    case True
    then obtain v where v: "d key = Some v" by auto
    let ?h = "h[np := (h ! np)[idx := v]]"
    have si: "setitem np idx v h = Inr ?h" using Cons.prems by (simp add: setitem_def)
    have "np < length ?h" "Suc idx + length ks \<le> length (?h ! np)" using Cons.prems by auto
    from Cons.IH[OF this] obtain xs where
      xs: "apply_emotion_loop d np (Suc idx) ks ?h = Inr (?h[np := xs])" "length xs = length (?h ! np)"
        "\<forall>j < length xs. xs ! j =
        (if Suc idx \<le> j \<and> j < Suc idx + length ks \<and> ks ! (j - Suc idx) \<in> dom d \<and> ks ! (j - Suc idx) \<noteq> ''breathing_index''
         then the (d (ks ! (j - Suc idx))) else ?h ! np ! j)" by auto
    have eq: "apply_emotion_loop d np idx (key # ks) h = Inr (h[np := xs])"
      using True v si xs(1) by simp
    show ?thesis
    proof (intro exI[of _ xs] conjI allI impI)
      fix j assume "j < length xs"
      then show "xs ! j = (if idx \<le> j \<and> j < idx + length (key # ks) \<and> (key # ks) ! (j - idx) \<in> dom d \<and> (key # ks) ! (j - idx) \<noteq> ''breathing_index''
         then the (d ((key # ks) ! (j - idx))) else h ! np ! j)"
        using xs(3) True v Cons.prems by (cases "j = idx") (auto simp: nth_Cons' Suc_diff_le)
    qed (use eq xs(2) Cons.prems in auto)
  qed
qed

section \<open>Emotion overlay\<close>

text \<open>
  Claim C7. \<^verbatim>\<open>apply_emotion_to_pose\<close> on a pose that has a value for every channel
  returns a new list object: every channel named in the preset, except
  \<^verbatim>\<open>breathing_index\<close>, has the preset's value; every other channel, and the
  breathing channel always, has the value of the input pose; every list object that
  existed before the call, the input pose among them, is unchanged.
\<close>

theorem apply_emotion_to_pose_overlay:
  assumes "p < length (lists self)" and "length keys \<le> length (lists self ! p)"
  shows "\<exists>h'. apply_emotion_to_pose keys d p self = Inr (length (lists self), self\<lparr>lists := h'\<rparr>)
           \<and> length h' = Suc (length (lists self))
           \<and> (\<forall>r < length (lists self). h' ! r = lists self ! r)
           \<and> length (h' ! length (lists self)) = length (lists self ! p)
           \<and> (\<forall>i < length (lists self ! p).
                h' ! length (lists self) ! i =
                  (if i < length keys \<and> keys ! i \<in> dom d \<and> keys ! i \<noteq> ''breathing_index''
                   then the (d (keys ! i)) else lists self ! p ! i))"
proof -
  let ?h = "lists self"
  let ?n = "length ?h"
  let ?h1 = "?h @ [?h ! p]"
  have "?n < length ?h1" "0 + length keys \<le> length (?h1 ! ?n)" using assms by simp_all
  from apply_emotion_loop_spec[OF this, of d] obtain xs where
    xs: "apply_emotion_loop d ?n 0 keys ?h1 = Inr (?h1[?n := xs])" "length xs = length (?h ! p)"
      "\<forall>j < length xs. xs ! j = (if j < length keys \<and> keys ! j \<in> dom d \<and> keys ! j \<noteq> ''breathing_index''
         then the (d (keys ! j)) else ?h ! p ! j)" by auto
  have run: "apply_emotion_to_pose keys d p self = Inr (?n, self\<lparr>lists := ?h1[?n := xs]\<rparr>)"
    using xs(1) by (simp add: apply_emotion_to_pose_def list_copy_def alloc_def)
  show ?thesis
  proof (intro exI[of _ "?h1[?n := xs]"] conjI)
    show "\<forall>r < ?n. ?h1[?n := xs] ! r = ?h ! r" by (simp add: nth_append)
  qed (use run xs in simp_all)
qed

theorem apply_emotion_to_pose_overlay_witness:
  "\<exists>h'. apply_emotion_to_pose [''head_x_index'', ''breathing_index'', ''mouth_aaa_index'']
            [''head_x_index'' \<mapsto> 1 / 2, ''breathing_index'' \<mapsto> 1] 0
            (example_anim [[0, 1 / 4, 1 / 8]])
          = Inr (1, (example_anim [[0, 1 / 4, 1 / 8]])\<lparr>lists := h'\<rparr>)
        \<and> h' ! 0 = [0, 1 / 4, 1 / 8] \<and> h' ! 1 ! 0 = 1 / 2 \<and> h' ! 1 ! 1 = 1 / 4 \<and> h' ! 1 ! 2 = 1 / 8"
  using apply_emotion_to_pose_overlay
    [of 0 "example_anim [[0, 1 / 4, 1 / 8]]" "[''head_x_index'', ''breathing_index'', ''mouth_aaa_index'']"
        "[''head_x_index'' \<mapsto> 1 / 2, ''breathing_index'' \<mapsto> 1]"]
  by (auto simp: example_anim_def)

section \<open>Talk overlay\<close>

lemma key_index_InrD:
  "posedict_key_to_index keys k = Inr i \<Longrightarrow> i < length keys \<and> keys ! i = k"
  by (auto simp: posedict_key_to_index_def set_zip split: option.splits dest!: map_of_SomeD)

lemma uniform_bounds:
  assumes "0 \<le> r" "r < 1" "a \<le> b"
  shows "a \<le> uniform a b r" and "uniform a b r \<le> b"
proof -
  have "0 \<le> (b - a) * r" using assms by simp
  then show "a \<le> uniform a b r" by (simp add: uniform_def)
  have "(b - a) * r \<le> (b - a) * 1" using assms by (intro mult_left_mono) auto
  then show "uniform a b r \<le> b" by (simp add: uniform_def)
qed

text \<open>
  Claim C8. On a pose that has the mouth-open channel (index \<open>idx\<close>):
  while \<^verbatim>\<open>is_talking\<close> is set, \<^verbatim>\<open>animate_talking\<close> returns a new list that is the
  input pose with the mouth-open channel replaced by
  \<open>max 0 (min (\<bar>1 - previous\<bar> + uniform (-2) 2) 1)\<close>, a value within \<open>[0, 1]\<close>, and
  every other channel as it was; while the flag is clear it returns the very same pose
  object and changes nothing.
\<close>

theorem animate_talking_overlay:
  assumes "p < length (lists self)"
    and "posedict_key_to_index keys ''mouth_aaa_index'' = Inr idx"
    and "idx < length (lists self ! p)"
  shows "animate_talking keys g rnd p self =
           (if is_talking g
            then Inr (length (lists self),
                      self\<lparr>lists := lists self @
                         [(lists self ! p)[idx := max 0 (min (\<bar>1 - lists self ! p ! idx\<bar> + uniform (- 2) 2 rnd) 1)]]\<rparr>)
            else Inr (p, self))
         \<and> 0 \<le> max 0 (min (\<bar>1 - lists self ! p ! idx\<bar> + uniform (- 2) 2 rnd) 1)
         \<and> max 0 (min (\<bar>1 - lists self ! p ! idx\<bar> + uniform (- 2) 2 rnd) 1) \<le> (1::real)"
proof -
  let ?h = "lists self"
  have g: "getitem (?h @ [?h ! p]) p idx = Inr (?h ! p ! idx)"
    using assms by (simp add: getitem_def nth_append)
  have s: "setitem (length ?h) idx v (?h @ [?h ! p]) = Inr (?h @ [(?h ! p)[idx := v]])" for v
    using assms by (simp add: setitem_def)
  show ?thesis
    using assms(2) g s by (simp add: animate_talking_def list_copy_def alloc_def Let_def)
qed

theorem animate_talking_overlay_witness:
  "animate_talking [''head_x_index'', ''mouth_aaa_index''] (talking_globals True) (1 / 2) 0
      (example_anim [[1 / 4, 1 / 4]])
     = Inr (1, (example_anim [[1 / 4, 1 / 4]])\<lparr>lists := [[1 / 4, 1 / 4], [1 / 4, 3 / 4]]\<rparr>)
   \<and> animate_talking [''head_x_index'', ''mouth_aaa_index''] (talking_globals False) (1 / 2) 0
      (example_anim [[1 / 4, 1 / 4]])
     = Inr (0, example_anim [[1 / 4, 1 / 4]])"
  using animate_talking_overlay
          [of 0 "example_anim [[1 / 4, 1 / 4]]" "[''head_x_index'', ''mouth_aaa_index'']" 1
              "talking_globals True" "1 / 2"]
        animate_talking_overlay
          [of 0 "example_anim [[1 / 4, 1 / 4]]" "[''head_x_index'', ''mouth_aaa_index'']" 1
              "talking_globals False" "1 / 2"]
  by (simp add: example_anim_def talking_globals_def uniform_def posedict_key_to_index_def upt_rec)

section \<open>Pose integration\<close>

lemma round_half_even_error: "\<bar>real_of_int (round_half_even y) - y\<bar> \<le> 1 / 2"
proof -
  have "real_of_int \<lfloor>y\<rfloor> \<le> y" "y < real_of_int \<lfloor>y\<rfloor> + 1" by linarith+
  then show ?thesis by (auto simp: round_half_even_def Let_def)
qed

lemma round_half_even_nonneg: "0 \<le> y \<Longrightarrow> 0 \<le> round_half_even y"
  by (auto simp: round_half_even_def Let_def)

lemma double_zero: "double 0 = 0"
  by (simp add: double_def)

lemma double_nonneg: "0 \<le> x \<Longrightarrow> 0 \<le> double x"
  by (auto simp: double_def Let_def intro!: mult_nonneg_nonneg round_half_even_nonneg)

lemma double_error: "\<bar>double x - x\<bar> \<le> unit_roundoff * \<bar>x\<bar> + underflow_error"
proof (cases "x = 0")
  case True
  then show ?thesis by (simp add: double_def unit_roundoff_def underflow_error_def)
next
  case False
  define e0 where "e0 = \<lfloor>log 2 \<bar>x\<bar>\<rfloor>"
  define e where "e = max e0 (- 1022) - 52"
  define sp where "sp = 2 powr real_of_int e"
  have sp: "0 < sp" by (simp add: sp_def)
  have d: "double x = real_of_int (round_half_even (x / sp)) * sp"
    using False by (simp add: double_def Let_def e_def e0_def sp_def)
  have "double x - x = (real_of_int (round_half_even (x / sp)) - x / sp) * sp"
    using sp by (simp add: d algebra_simps)
  then have "\<bar>double x - x\<bar> = \<bar>real_of_int (round_half_even (x / sp)) - x / sp\<bar> * sp"
    using sp by (simp add: abs_mult)
  also have "\<dots> \<le> 1 / 2 * sp"
    using round_half_even_error[of "x / sp"] sp by (intro mult_right_mono) simp_all
  finally have err: "\<bar>double x - x\<bar> \<le> sp / 2" by simp
  show ?thesis
  proof (cases "- 1022 \<le> e0")
    case True
    then have e: "e = e0 - 52" by (simp add: e_def)
    have "2 powr real_of_int e0 \<le> \<bar>x\<bar>"
    proof -
      have "real_of_int e0 \<le> log 2 \<bar>x\<bar>" by (simp add: e0_def)
      then have "2 powr real_of_int e0 \<le> 2 powr log 2 \<bar>x\<bar>" by (intro powr_mono) simp_all
      then show ?thesis using False by simp
    qed
    moreover have "sp / 2 = 2 powr (- 53) * 2 powr real_of_int e0"
      by (simp add: sp_def e powr_diff powr_minus field_simps)
    ultimately have "sp / 2 \<le> unit_roundoff * \<bar>x\<bar>"
      by (simp add: unit_roundoff_def mult_left_mono)
    moreover have "0 \<le> underflow_error" by (simp add: underflow_error_def)
    ultimately show ?thesis using err by linarith
  next
    case False
    then have e: "e = - 1074" by (simp add: e_def)
    have "sp / 2 = underflow_error"
      by (simp add: sp_def e underflow_error_def powr_minus field_simps)
    moreover have "0 \<le> unit_roundoff * \<bar>x\<bar>" by (simp add: unit_roundoff_def)
    ultimately show ?thesis using err by linarith
  qed
qed

lemma round_half_even_int: "round_half_even (real_of_int k) = k"
  by (simp add: round_half_even_def)

lemma round_half_even_near:
  assumes "0 \<le> r" "r < 1 / 2"
  shows "round_half_even (real_of_int k + r) = k"
proof -
  have "\<lfloor>real_of_int k + r\<rfloor> = k" using assms by (intro floor_unique) simp_all
  then show ?thesis using assms by (simp add: round_half_even_def Let_def)
qed

lemma roundoff_small: "unit_roundoff \<le> 1 / 16" "0 < unit_roundoff"
  "underflow_error \<le> unit_roundoff" "0 < underflow_error"
  "16 * unit_roundoff = 2 powr (- 49)"
proof -
  have "2 powr (- 53) \<le> 2 powr (- 4 :: real)" by (intro powr_mono) simp_all
  then show "unit_roundoff \<le> 1 / 16" by (simp add: unit_roundoff_def powr_minus)
  show "0 < unit_roundoff" "0 < underflow_error"
    by (simp_all add: unit_roundoff_def underflow_error_def)
  show "underflow_error \<le> unit_roundoff"
    unfolding unit_roundoff_def underflow_error_def by (intro powr_mono) simp_all
  have "(16::real) = 2 powr 4" by simp
  then have "16 * unit_roundoff = 2 powr 4 * 2 powr (- 53)" by (simp add: unit_roundoff_def)
  also have "\<dots> = 2 powr (4 + (- 53))" by (simp only: powr_add)
  finally show "16 * unit_roundoff = 2 powr (- 49)" by simp
qed

lemma rounded_step_bound:
  fixes c t s :: real
  assumes "0 < s" "s < 1" "\<bar>c\<bar> \<le> 1" "\<bar>t\<bar> \<le> 1"
  shows "\<bar>double (c + double (s * double (t - c))) - t\<bar> \<le> (1 - s) * \<bar>c - t\<bar> + 2 powr (- 49)"
proof -
  define u where "u = unit_roundoff"
  define d where "d = t - c"
  define delta where "delta = double d"
  define p where "p = s * delta"
  define prod where "prod = double p"
  define q where "q = c + prod"
  define new where "new = double q"
  have u: "0 < u" "u \<le> 1 / 16" and eta: "0 < underflow_error" "underflow_error \<le> u"
    using roundoff_small by (simp_all add: u_def)
  have d2: "\<bar>d\<bar> \<le> 2" using assms by (simp add: d_def)
  have "u * \<bar>d\<bar> \<le> u * 2" using d2 u by (intro mult_left_mono) simp_all
  moreover have "\<bar>delta - d\<bar> \<le> u * \<bar>d\<bar> + underflow_error"
    unfolding delta_def u_def by (rule double_error)
  ultimately have e1: "\<bar>delta - d\<bar> \<le> 3 * u" using eta by linarith
  then have delta3: "\<bar>delta\<bar> \<le> 3" using d2 u by linarith
  have "\<bar>p\<bar> = s * \<bar>delta\<bar>" using assms by (simp add: p_def abs_mult)
  also have "\<dots> \<le> 1 * \<bar>delta\<bar>" using assms by (intro mult_right_mono) simp_all
  finally have p3: "\<bar>p\<bar> \<le> 3" using delta3 by simp
  have "u * \<bar>p\<bar> \<le> u * 3" using p3 u by (intro mult_left_mono) simp_all
  moreover have "\<bar>prod - p\<bar> \<le> u * \<bar>p\<bar> + underflow_error"
    unfolding prod_def u_def by (rule double_error)
  ultimately have e2: "\<bar>prod - p\<bar> \<le> 4 * u" using eta by linarith
  then have prod4: "\<bar>prod\<bar> \<le> 4" using p3 u by linarith
  have q5: "\<bar>q\<bar> \<le> 5" using prod4 assms by (simp add: q_def)
  have "u * \<bar>q\<bar> \<le> u * 5" using q5 u by (intro mult_left_mono) simp_all
  moreover have "\<bar>new - q\<bar> \<le> u * \<bar>q\<bar> + underflow_error"
    unfolding new_def u_def by (rule double_error)
  ultimately have e3: "\<bar>new - q\<bar> \<le> 6 * u" using eta by linarith
  have "\<bar>p - s * d\<bar> = s * \<bar>delta - d\<bar>"
    using assms by (simp add: p_def abs_mult flip: right_diff_distrib)
  also have "\<dots> \<le> 1 * \<bar>delta - d\<bar>" using assms by (intro mult_right_mono) simp_all
  finally have e4: "\<bar>p - s * d\<bar> \<le> 3 * u" using e1 by simp
  have split: "new - t = (new - q) + (prod - p) + (p - s * d) + (- ((1 - s) * d))"
    by (simp add: q_def d_def algebra_simps)
  have "\<bar>(1 - s) * d\<bar> = (1 - s) * \<bar>c - t\<bar>"
    using assms by (simp add: abs_mult d_def abs_minus_commute)
  then have "\<bar>new - t\<bar> \<le> 13 * u + (1 - s) * \<bar>c - t\<bar>"
    unfolding split using e3 e2 e4 by linarith
  moreover have "13 * u \<le> 2 powr (- 49)" using roundoff_small(5) u by (simp add: u_def)
  ultimately show ?thesis
    by (simp add: new_def q_def prod_def p_def delta_def d_def)
qed

lemma rounded_step_strict:
  fixes c t s :: real
  assumes "0 < s" "s < 1" "\<bar>c\<bar> \<le> 1" "\<bar>t\<bar> \<le> 1" "2 powr (- 49) < s * \<bar>c - t\<bar>"
  shows "\<bar>double (c + double (s * double (t - c))) - t\<bar> < \<bar>c - t\<bar>"
proof -
  have "(1 - s) * \<bar>c - t\<bar> + 2 powr (- 49) < (1 - s) * \<bar>c - t\<bar> + s * \<bar>c - t\<bar>"
    using assms(5) by simp
  also have "\<dots> = \<bar>c - t\<bar>" by (simp add: algebra_simps)
  finally show ?thesis using rounded_step_bound[OF assms(1-4)] by linarith
qed

lemma double_half_stall:
  assumes "0 \<le> x" "x < 2 powr (- 54)"
  shows "double (1 / 2 + x) = 1 / 2"
proof -
  let ?v = "1 / 2 + x"
  have small: "2 powr (- 54) \<le> (1 / 2 :: real)"
  proof -
    have "2 powr (- 54) \<le> 2 powr (- 1 :: real)" by (intro powr_mono) simp_all
    then show ?thesis by (simp add: powr_minus)
  qed
  have v: "0 < ?v" "?v < 1" "1 / 2 \<le> ?v" using assms small by simp_all
  have "\<lfloor>log 2 ?v\<rfloor> = - 1"
    using v by (subst floor_log_eq_powr_iff) (simp_all add: powr_minus)
  then have e: "max \<lfloor>log 2 \<bar>?v\<bar>\<rfloor> (- 1022) - 52 = - 53" using v by simp
  have sp: "?v / 2 powr (- 53) = real_of_int (2 ^ 52) + x * 2 ^ 53"
    by (simp add: powr_minus field_simps)
  have x53: "0 \<le> x * 2 ^ 53" "x * 2 ^ 53 < 1 / 2"
  proof -
    show "0 \<le> x * 2 ^ 53" using assms by simp
    have "x * 2 ^ 53 < 2 powr (- 54) * 2 ^ 53" using assms by simp
    also have "\<dots> = 1 / 2" by (simp add: powr_minus)
    finally show "x * 2 ^ 53 < 1 / 2" .
  qed
  have r: "round_half_even (?v / 2 powr (- 53)) = 2 ^ 52"
    unfolding sp using x53 by (rule round_half_even_near)
  have ne: "?v \<noteq> 0" using v by simp
  have "double ?v =
          real_of_int (round_half_even
            (?v / 2 powr real_of_int (max \<lfloor>log 2 \<bar>?v\<bar>\<rfloor> (- 1022) - 52)))
          * 2 powr real_of_int (max \<lfloor>log 2 \<bar>?v\<bar>\<rfloor> (- 1022) - 52)"
    using ne by (simp only: double_def Let_def if_False)
  then have "double ?v = real_of_int (round_half_even (?v / 2 powr (- 53))) * 2 powr (- 53)"
    by (simp only: e of_int_minus of_int_numeral)
  then have "double ?v = real_of_int (2 ^ 52) * 2 powr (- 53)"
    by (simp only: r)
  then show ?thesis by (simp add: powr_minus)
qed

lemma double_half_next: "double (1 / 2 + 2 powr (- 53)) = 1 / 2 + 2 powr (- 53)"
proof -
  let ?v = "1 / 2 + 2 powr (- 53) :: real"
  have small: "2 powr (- 53) < (1 / 2 :: real)"
  proof -
    have "2 powr (- 53) < 2 powr (- 1 :: real)" by (intro powr_less_mono) simp_all
    then show ?thesis by (simp add: powr_minus)
  qed
  have pos: "0 < (2 powr (- 53) :: real)" by simp
  have v: "0 < ?v" "?v < 1" "1 / 2 \<le> ?v" using small pos by linarith+
  have "\<lfloor>log 2 ?v\<rfloor> = - 1"
    using v by (subst floor_log_eq_powr_iff) (simp_all add: powr_minus)
  then have e: "max \<lfloor>log 2 \<bar>?v\<bar>\<rfloor> (- 1022) - 52 = - 53" using v by simp
  have sp: "?v / 2 powr (- 53) = real_of_int (2 ^ 52 + 1) + 0"
    by (simp add: powr_minus field_simps)
  have r: "round_half_even (?v / 2 powr (- 53)) = 2 ^ 52 + 1"
    unfolding sp by (rule round_half_even_near) simp_all
  have ne: "?v \<noteq> 0" using v(1) by linarith
  have "double ?v =
          real_of_int (round_half_even
            (?v / 2 powr real_of_int (max \<lfloor>log 2 \<bar>?v\<bar>\<rfloor> (- 1022) - 52)))
          * 2 powr real_of_int (max \<lfloor>log 2 \<bar>?v\<bar>\<rfloor> (- 1022) - 52)"
    using ne by (simp only: double_def Let_def if_False)
  then have "double ?v = real_of_int (round_half_even (?v / 2 powr (- 53))) * 2 powr (- 53)"
    by (simp only: e of_int_minus of_int_numeral)
  then have "double ?v = real_of_int (2 ^ 52 + 1) * 2 powr (- 53)"
    by (simp only: r)
  then show ?thesis by (simp add: powr_minus field_simps)
qed

lemma default_step_bounds: "0 < double (1 / 10)" "double (1 / 10) \<le> 1 / 4"
proof -
  have "\<bar>double (1 / 10) - 1 / 10\<bar> \<le> unit_roundoff * \<bar>1 / 10\<bar> + underflow_error"
    by (rule double_error)
  then have "\<bar>double (1 / 10) - 1 / 10\<bar> \<le> 1 / 160 + 1 / 16"
    using roundoff_small(1,3) by simp
  then show "0 < double (1 / 10)" "double (1 / 10) \<le> 1 / 4" by linarith+
qed

lemma stall_step:
  assumes "0 < s" "s \<le> 1 / 4"
  shows "double (1 / 2 + double (s * double (1 / 2 + 2 powr (- 53) - 1 / 2))) = 1 / 2"
proof -
  define d :: real where "d = 2 powr (- 53)"
  define delta where "delta = double d"
  define p where "p = s * delta"
  define prod where "prod = double p"
  have d: "0 < d" by (simp add: d_def)
  have u: "0 < unit_roundoff" "unit_roundoff \<le> 1 / 16" using roundoff_small by simp_all
  have eta: "underflow_error \<le> d / 16"
  proof -
    have "underflow_error \<le> 2 powr (- 57)"
      unfolding underflow_error_def by (intro powr_mono) simp_all
    also have "\<dots> = 2 powr (- 53 + (- 4))" by simp
    also have "\<dots> = d / 16" unfolding powr_add d_def by (simp add: powr_minus)
    finally show ?thesis .
  qed
  have "unit_roundoff * \<bar>d\<bar> \<le> 1 / 16 * \<bar>d\<bar>" using u by (intro mult_right_mono) simp_all
  moreover have "\<bar>delta - d\<bar> \<le> unit_roundoff * \<bar>d\<bar> + underflow_error"
    unfolding delta_def by (rule double_error)
  ultimately have delta: "delta \<le> 9 / 8 * d" using eta d by linarith
  have delta0: "0 \<le> delta" unfolding delta_def using d by (intro double_nonneg) simp
  have p0: "0 \<le> p" using assms delta0 by (simp add: p_def)
  have "p \<le> 1 / 4 * delta" unfolding p_def using assms delta0 by (intro mult_right_mono) simp_all
  then have p: "p \<le> 9 / 32 * d" using delta by linarith
  have "unit_roundoff * \<bar>p\<bar> \<le> 1 / 16 * \<bar>p\<bar>" using u by (intro mult_right_mono) simp_all
  moreover have "\<bar>prod - p\<bar> \<le> unit_roundoff * \<bar>p\<bar> + underflow_error"
    unfolding prod_def by (rule double_error)
  ultimately have "prod < d / 2" using eta p p0 d by linarith
  moreover have "d / 2 = 2 powr (- 54)"
  proof -
    have "2 powr (- 54) = 2 powr (- 53 + (- 1 :: real))" by simp
    also have "\<dots> = d / 2" unfolding powr_add d_def by (simp add: powr_minus)
    finally show ?thesis by simp
  qed
  moreover have "0 \<le> prod" unfolding prod_def using p0 by (rule double_nonneg)
  ultimately have "double (1 / 2 + prod) = 1 / 2" by (intro double_half_stall) simp_all
  then show ?thesis by (simp add: prod_def p_def delta_def d_def)
qed


lemma interpolate_loop_spec:
  "np < length h \<Longrightarrow> p \<noteq> np \<Longrightarrow> t \<noteq> np \<Longrightarrow> idx + length ks \<le> length (h ! np) \<Longrightarrow>
   idx + length ks \<le> length (h ! p) \<Longrightarrow> idx + length ks \<le> length (h ! t) \<Longrightarrow>
   \<exists>xs. interpolate_loop p t step np idx ks h = Inr (h[np := xs]) \<and> length xs = length (h ! np) \<and>
     (\<forall>j < length xs. xs ! j =
        (if idx \<le> j \<and> j < idx + length ks
         then double (h ! p ! j + double (step * double (h ! t ! j - h ! p ! j)))
         else h ! np ! j))"
proof (induction ks arbitrary: idx h)
  case Nil
  show ?case by (rule exI[of _ "h ! np"]) simp
next
  case (Cons key ks)
  let ?v = "double (h ! p ! idx + double (step * double (h ! t ! idx - h ! p ! idx)))"
  let ?h = "h[np := (h ! np)[idx := ?v]]"
  have g1: "getitem h t idx = Inr (h ! t ! idx)" "getitem h p idx = Inr (h ! p ! idx)"
    using Cons.prems by (simp_all add: getitem_def)
  have si: "setitem np idx ?v h = Inr ?h" using Cons.prems by (simp add: setitem_def)
  have pre: "np < length ?h" "Suc idx + length ks \<le> length (?h ! np)"
    "Suc idx + length ks \<le> length (?h ! p)" "Suc idx + length ks \<le> length (?h ! t)"
    using Cons.prems by auto
  from Cons.IH[OF pre(1) Cons.prems(2,3) pre(2,3,4)] obtain xs where
    xs: "interpolate_loop p t step np (Suc idx) ks ?h = Inr (?h[np := xs])"
      "length xs = length (?h ! np)"
      "\<forall>j < length xs. xs ! j =
        (if Suc idx \<le> j \<and> j < Suc idx + length ks
         then double (?h ! p ! j + double (step * double (?h ! t ! j - ?h ! p ! j)))
         else ?h ! np ! j)" by auto
  have eq: "interpolate_loop p t step np idx (key # ks) h = Inr (h[np := xs])"
    using g1 si xs(1) by (simp add: Let_def)
  show ?case
  proof (intro exI[of _ xs] conjI allI impI)
    fix j assume "j < length xs"
    then show "xs ! j = (if idx \<le> j \<and> j < idx + length (key # ks)
         then double (h ! p ! j + double (step * double (h ! t ! j - h ! p ! j)))
         else h ! np ! j)"
      using xs(3) Cons.prems by (cases "j = idx") auto
  qed (use eq xs(2) Cons.prems in auto)
qed

text \<open>
  Claim C6, as amended. On poses that have a value for every channel,
  \<^verbatim>\<open>interpolate_pose\<close> returns a new list whose channel \<open>i\<close> is the float result of
  \<open>current + step * (target - current)\<close>, each of the three operations rounded. For a
  step strictly between 0 and 1 and channels within \<open>[-1, 1]\<close> the distance to the
  target after the call is at most \<open>(1 - step)\<close> times the distance before plus
  \<open>2\<close> to the power \<open>-49\<close>, so it is strictly smaller than before whenever
  \<open>step\<close> times the distance exceeds that rounding allowance. The lists that existed
  before the call, the target among them, are unchanged, so the statement holds again
  at every further application with the same target.
\<close>

theorem interpolate_pose_rounded_contraction:
  assumes "p < length (lists self)" and "t < length (lists self)"
    and "length keys \<le> length (lists self ! p)" and "length keys \<le> length (lists self ! t)"
  shows "\<exists>h'. interpolate_pose keys p t step self = Inr (length (lists self), self\<lparr>lists := h'\<rparr>)
           \<and> length h' = Suc (length (lists self))
           \<and> (\<forall>r < length (lists self). h' ! r = lists self ! r)
           \<and> length (h' ! length (lists self)) = length (lists self ! p)
           \<and> (\<forall>i < length keys.
                h' ! length (lists self) ! i
                  = double (lists self ! p ! i
                            + double (step * double (lists self ! t ! i - lists self ! p ! i)))
                \<and> (0 < step \<and> step < 1
                     \<and> \<bar>lists self ! p ! i\<bar> \<le> 1 \<and> \<bar>lists self ! t ! i\<bar> \<le> 1
                     \<longrightarrow> \<bar>h' ! length (lists self) ! i - lists self ! t ! i\<bar>
                            \<le> (1 - step) * \<bar>lists self ! p ! i - lists self ! t ! i\<bar>
                                + 2 powr (- 49)
                          \<and> (2 powr (- 49) < step * \<bar>lists self ! p ! i - lists self ! t ! i\<bar>
                               \<longrightarrow> \<bar>h' ! length (lists self) ! i - lists self ! t ! i\<bar>
                                      < \<bar>lists self ! p ! i - lists self ! t ! i\<bar>)))"
proof -
  let ?h = "lists self"
  let ?n = "length ?h"
  let ?h1 = "?h @ [?h ! p]"
  let ?new = "\<lambda>i. double (?h ! p ! i + double (step * double (?h ! t ! i - ?h ! p ! i)))"
  have pre: "?n < length ?h1" "p \<noteq> ?n" "t \<noteq> ?n" "0 + length keys \<le> length (?h1 ! ?n)"
    "0 + length keys \<le> length (?h1 ! p)" "0 + length keys \<le> length (?h1 ! t)"
    using assms by (simp_all add: nth_append)
  from interpolate_loop_spec[OF pre, of step] obtain xs where
    xs: "interpolate_loop p t step ?n 0 keys ?h1 = Inr (?h1[?n := xs])" "length xs = length (?h ! p)"
      "\<forall>j < length xs. xs ! j = (if j < length keys then ?new j else ?h ! p ! j)"
    using assms by (auto simp: nth_append)
  have run: "interpolate_pose keys p t step self = Inr (?n, self\<lparr>lists := ?h1[?n := xs]\<rparr>)"
    using xs(1) by (simp add: interpolate_pose_def list_copy_def alloc_def)
  have val: "?h1[?n := xs] ! ?n ! i = ?new i" if "i < length keys" for i
    using xs(2,3) that assms(3) by auto
  show ?thesis
  proof (intro exI[of _ "?h1[?n := xs]"] conjI)
    show "\<forall>r < ?n. ?h1[?n := xs] ! r = ?h ! r" by (simp add: nth_append)
  next
    show "\<forall>i < length keys.
            ?h1[?n := xs] ! ?n ! i = ?new i
            \<and> (0 < step \<and> step < 1 \<and> \<bar>?h ! p ! i\<bar> \<le> 1 \<and> \<bar>?h ! t ! i\<bar> \<le> 1
                 \<longrightarrow> \<bar>?h1[?n := xs] ! ?n ! i - ?h ! t ! i\<bar>
                        \<le> (1 - step) * \<bar>?h ! p ! i - ?h ! t ! i\<bar> + 2 powr (- 49)
                      \<and> (2 powr (- 49) < step * \<bar>?h ! p ! i - ?h ! t ! i\<bar>
                           \<longrightarrow> \<bar>?h1[?n := xs] ! ?n ! i - ?h ! t ! i\<bar>
                                  < \<bar>?h ! p ! i - ?h ! t ! i\<bar>))"
    proof (intro allI impI conjI)
      fix i assume i: "i < length keys"
      show "?h1[?n := xs] ! ?n ! i = ?new i" by (rule val[OF i])
      assume a: "0 < step \<and> step < 1 \<and> \<bar>?h ! p ! i\<bar> \<le> 1 \<and> \<bar>?h ! t ! i\<bar> \<le> 1"
      show "\<bar>?h1[?n := xs] ! ?n ! i - ?h ! t ! i\<bar>
              \<le> (1 - step) * \<bar>?h ! p ! i - ?h ! t ! i\<bar> + 2 powr (- 49)"
        unfolding val[OF i] using a by (intro rounded_step_bound) simp_all
      assume "2 powr (- 49) < step * \<bar>?h ! p ! i - ?h ! t ! i\<bar>"
      then show "\<bar>?h1[?n := xs] ! ?n ! i - ?h ! t ! i\<bar> < \<bar>?h ! p ! i - ?h ! t ! i\<bar>"
        unfolding val[OF i] using a by (intro rounded_step_strict) simp_all
    qed
  qed (use run xs in simp_all)
qed

theorem interpolate_pose_rounded_contraction_witness:
  "\<exists>h'. interpolate_pose [''head_x_index'', ''mouth_aaa_index''] 0 1 (1 / 2)
            (example_anim [[0, 1], [1, 1]])
          = Inr (2, (example_anim [[0, 1], [1, 1]])\<lparr>lists := h'\<rparr>)
        \<and> h' ! 0 = [0, 1] \<and> h' ! 1 = [1, 1]
        \<and> h' ! 2 ! 0 = double (0 + double (1 / 2 * double (1 - 0)))
        \<and> \<bar>h' ! 2 ! 0 - 1\<bar> \<le> (1 - 1 / 2) * \<bar>0 - 1\<bar> + 2 powr (- 49)
        \<and> \<bar>h' ! 2 ! 0 - 1\<bar> < \<bar>0 - (1::real)\<bar>"
proof -
  let ?s = "example_anim [[0, 1], [1, 1]]"
  let ?keys = "[''head_x_index'', ''mouth_aaa_index'']"
  have pre: "0 < length (lists ?s)" "1 < length (lists ?s)"
    "length ?keys \<le> length (lists ?s ! 0)" "length ?keys \<le> length (lists ?s ! 1)"
    by (simp_all add: example_anim_def)
  from interpolate_pose_rounded_contraction[OF pre, of "1 / 2"] obtain h' where
    h: "interpolate_pose ?keys 0 1 (1 / 2) ?s = Inr (length (lists ?s), ?s\<lparr>lists := h'\<rparr>)"
      "\<forall>r < length (lists ?s). h' ! r = lists ?s ! r"
      "\<forall>i < length ?keys.
          h' ! length (lists ?s) ! i
            = double (lists ?s ! 0 ! i + double (1 / 2 * double (lists ?s ! 1 ! i - lists ?s ! 0 ! i)))
          \<and> (0 < (1 / 2 :: real) \<and> (1 / 2 :: real) < 1
               \<and> \<bar>lists ?s ! 0 ! i\<bar> \<le> 1 \<and> \<bar>lists ?s ! 1 ! i\<bar> \<le> 1
               \<longrightarrow> \<bar>h' ! length (lists ?s) ! i - lists ?s ! 1 ! i\<bar>
                      \<le> (1 - 1 / 2) * \<bar>lists ?s ! 0 ! i - lists ?s ! 1 ! i\<bar> + 2 powr (- 49)
                    \<and> (2 powr (- 49) < 1 / 2 * \<bar>lists ?s ! 0 ! i - lists ?s ! 1 ! i\<bar>
                         \<longrightarrow> \<bar>h' ! length (lists ?s) ! i - lists ?s ! 1 ! i\<bar>
                                < \<bar>lists ?s ! 0 ! i - lists ?s ! 1 ! i\<bar>))"
    by blast
  have n: "length (lists ?s) = 2" by (simp add: example_anim_def)
  have gap: "2 powr (- 49) < (1 / 2 :: real)"
  proof -
    have "2 powr (- 49) < 2 powr (- 1 :: real)" by (intro powr_less_mono) simp_all
    then show ?thesis by (simp add: powr_minus)
  qed
  from h(2) have a: "h' ! 0 = [0, 1]" "h' ! 1 = [1, 1]" by (simp_all add: example_anim_def)
  from h(3)[rule_format, of 0] gap have b:
    "h' ! 2 ! 0 = double (0 + double (1 / 2 * double (1 - 0)))"
    "\<bar>h' ! 2 ! 0 - 1\<bar> \<le> (1 - 1 / 2) * \<bar>0 - 1\<bar> + 2 powr (- 49)"
    "\<bar>h' ! 2 ! 0 - 1\<bar> < \<bar>0 - (1::real)\<bar>"
    by (auto simp: example_anim_def numeral_2_eq_2)
  show ?thesis using h(1) a b n by (intro exI[of _ h']) simp
qed

text \<open>
  The claim as written, strict decrease whenever the pose differs from the target,
  fails once the gap is within rounding: with the default step, the pose at 0.5 and the
  target one float above it, the product rounds the sum back to 0.5 and the pose stays
  where it was, short of the target.
\<close>

theorem interpolate_pose_stalls:
  "interpolate_pose [''head_x_index''] 0 1 (double (1 / 10)) stall_start
     = Inr (2, stall_start\<lparr>lists := [[1 / 2], [1 / 2 + 2 powr (- 53)], [1 / 2]]\<rparr>)
   \<and> 0 < double (1 / 10) \<and> double (1 / 10) < 1
   \<and> double (1 / 2) = 1 / 2
   \<and> double (1 / 2 + 2 powr (- 53)) = 1 / 2 + 2 powr (- 53)
   \<and> (1 / 2 :: real) \<noteq> 1 / 2 + 2 powr (- 53)
   \<and> \<not> \<bar>1 / 2 - (1 / 2 + 2 powr (- 53))\<bar> < \<bar>1 / 2 - (1 / 2 + 2 powr (- 53) :: real)\<bar>"
proof -
  have st: "double (1 / 2 + double (double (1 / 10) * double (1 / 2 + 2 powr (- 53) - 1 / 2)))
              = 1 / 2"
    using default_step_bounds by (intro stall_step) simp_all
  have run: "interpolate_pose [''head_x_index''] 0 1 (double (1 / 10)) stall_start
     = Inr (2, stall_start\<lparr>lists := [[1 / 2], [1 / 2 + 2 powr (- 53)], [1 / 2]]\<rparr>)"
    using st
    by (simp add: interpolate_pose_def list_copy_def alloc_def stall_start_def example_anim_def
        getitem_def setitem_def Let_def)
  have half: "double (1 / 2) = 1 / 2"
    using double_half_stall[of 0] by simp
  show ?thesis
    using run default_step_bounds half double_half_next by simp
qed

section \<open>Breathing overlay\<close>

lemma sq_sin_bounds:
  fixes x :: real
  shows "0 \<le> (sin x)\<^sup>2" and "(sin x)\<^sup>2 \<le> 1"
proof -
  show "0 \<le> (sin x)\<^sup>2" by simp
  have "\<bar>sin x\<bar> \<le> 1" by simp
  then show "(sin x)\<^sup>2 \<le> 1" by (simp add: abs_square_le_1)
qed

lemma animate_breathing_value:
  assumes "p < length (lists self)"
    and "posedict_key_to_index keys ''breathing_index'' = Inr idx"
    and "idx < length (lists self ! p)"
  shows "animate_breathing keys time_now p self =
           Inr (length (lists self),
                self\<lparr>breathing_epoch :=
                       (if breathing_cycle_pos time_now self > 1 then time_now else breathing_epoch self),
                     lists := lists self @
                       [(lists self ! p)[idx :=
                          (sin ((breathing_cycle_pos time_now self
                                  - real_of_int (py_int (breathing_cycle_pos time_now self))) * pi))\<^sup>2]]\<rparr>)"
proof -
  let ?h = "lists self"
  have s: "setitem (length ?h) idx v (?h @ [?h ! p]) = Inr (?h @ [(?h ! p)[idx := v]])" for v
    using assms by (simp add: setitem_def)
  show ?thesis
    using assms(2) s by (simp add: animate_breathing_def list_copy_def alloc_def Let_def)
qed

lemma breathing_key_index:
  "posedict_key_to_index [''breathing_index''] ''breathing_index'' = Inr 0"
  by (simp add: posedict_key_to_index_def)

lemma breathing_first_tick:
  "animate_breathing [''breathing_index''] 6000000000 0 breathing_start
     = Inr (1, breathing_start\<lparr>breathing_epoch := 6000000000, lists := [[0], [1]]\<rparr>)"
proof -
  have cp: "breathing_cycle_pos 6000000000 breathing_start = 3 / 2"
    by (simp add: breathing_cycle_pos_def breathing_start_def example_anim_def breathing_cycle_duration_def)
  have pi: "py_int (3 / 2) = 1" by (simp add: py_int_def)
  have "(3 / 2 - real_of_int 1) * pi = pi / 2" by simp
  then have v: "(sin ((3 / 2 - real_of_int 1) * pi))\<^sup>2 = 1" by simp
  show ?thesis
    using animate_breathing_value[of 0 breathing_start "[''breathing_index'']" 0 6000000000]
    by (simp add: breathing_key_index cp pi v) (simp add: breathing_start_def example_anim_def)
qed


lemma sin_small: "(sin (pi / 400))\<^sup>2 < 1 / 100"
proof -
  have p: "0 \<le> pi / 400" "pi / 400 < 1 / 100" using pi_less_4 by simp_all
  have "sin (pi / 400) \<le> pi / 400" using p(1) by (rule sin_x_le_x)
  moreover have "0 \<le> sin (pi / 400)" using p pi_gt_zero by (intro sin_ge_zero) simp_all
  ultimately have "(sin (pi / 400))\<^sup>2 \<le> (pi / 400)\<^sup>2" by (intro power_mono) simp_all
  also have "\<dots> \<le> (1 / 100)\<^sup>2" using p by (intro power_mono) simp_all
  also have "\<dots> < 1 / 100" by (simp add: power2_eq_square)
  finally show ?thesis .
qed

text \<open>
  Claim C5, evaluated where it fails. \<^verbatim>\<open>animate_breathing_value\<close> above gives the
  parts of the claim that hold: the channel is \<open>sin (pi * phase)\<^sup>2\<close>, within
  \<open>[0, 1]\<close>, and the epoch is reset exactly when the cycle position exceeds 1. The
  reset sets the epoch to the current time, not to the start of the current cycle: with
  the epoch at 0, a tick at 6 s has phase 1/2 and sets the channel to 1; the next tick,
  10 ms later, has phase 1/400 and sets it to less than 1/100. The phase is not
  continuous across the reset.
\<close>

theorem breathing_epoch_reset_jump:
  "animate_breathing [''breathing_index''] 6000000000 0 breathing_start
     = Inr (1, breathing_start\<lparr>breathing_epoch := 6000000000, lists := [[0], [1]]\<rparr>)
   \<and> animate_breathing [''breathing_index''] 6010000000 1
       (breathing_start\<lparr>breathing_epoch := 6000000000, lists := [[0], [1]]\<rparr>)
     = Inr (2, breathing_start\<lparr>breathing_epoch := 6000000000,
                               lists := [[0], [1], [(sin (pi / 400))\<^sup>2]]\<rparr>)
   \<and> (sin (pi / 400))\<^sup>2 < 1 / 100"
proof -
  let ?s1 = "breathing_start\<lparr>breathing_epoch := 6000000000, lists := [[0], [1]]\<rparr>"
  have cp: "breathing_cycle_pos 6010000000 ?s1 = 1 / 400"
    by (simp add: breathing_cycle_pos_def breathing_cycle_duration_def)
  have pi: "py_int (1 / 400) = 0" by (simp add: py_int_def)
  have second: "animate_breathing [''breathing_index''] 6010000000 1 ?s1
     = Inr (2, breathing_start\<lparr>breathing_epoch := 6000000000,
                               lists := [[0], [1], [(sin (pi / 400))\<^sup>2]]\<rparr>)"
    using animate_breathing_value[of 1 ?s1 "[''breathing_index'']" 0 6010000000]
    by (simp add: breathing_key_index cp pi)
  show ?thesis using breathing_first_tick second sin_small by simp
qed

section \<open>Sway target\<close>

lemma sway_value_bounds:
  assumes "- random_max \<le> target_value" "target_value \<le> random_max" "0 \<le> r" "r < 1"
  shows "- random_max \<le> target_value
           + uniform (min 0 (- random_max - target_value)) (max 0 (random_max - target_value)) r"
    and "target_value
           + uniform (min 0 (- random_max - target_value)) (max 0 (random_max - target_value)) r
         \<le> random_max"
proof -
  have lo: "min 0 (- random_max - target_value) = - random_max - target_value"
    and hi: "max 0 (random_max - target_value) = random_max - target_value"
    using assms by simp_all
  have le: "- random_max - target_value \<le> random_max - target_value" using assms by simp
  from uniform_bounds[OF assms(3,4) le]
  show "- random_max \<le> target_value
           + uniform (min 0 (- random_max - target_value)) (max 0 (random_max - target_value)) r"
    and "target_value
           + uniform (min 0 (- random_max - target_value)) (max 0 (random_max - target_value)) r
         \<le> random_max"
    unfolding lo hi by simp_all
qed

lemma sway_keys:
  "posedict_key_to_index SWAYPARTS ''head_x_index'' = Inr 0"
  "posedict_key_to_index SWAYPARTS ''head_y_index'' = Inr 1"
  "posedict_key_to_index SWAYPARTS ''neck_z_index'' = Inr 2"
  "posedict_key_to_index SWAYPARTS ''body_y_index'' = Inr 3"
  "posedict_key_to_index SWAYPARTS ''body_z_index'' = Inr 4"
  by (simp_all add: posedict_key_to_index_def SWAYPARTS_def upt_rec)

text \<open>
  Claim C1, evaluated where it fails. The recomputation does set each sway channel to
  \<open>target + uniform (min 0 (- R - target)) (max 0 (R - target))\<close> with \<open>R = 0.6\<close>, and
  for a base target within \<open>[- R, R]\<close> the result stays there
  (\<^verbatim>\<open>sway_value_bounds\<close>). For a base target outside, the random range only reaches
  back to the bound: with the head-x target at 0.9 and a draw of 0.9 the new target is
  0.75, above \<open>R\<close>, against the comment in the source that the swayed target always
  stays within \<open>[- R, R]\<close> regardless of the target value.
\<close>

theorem macrosway_leaves_range:
  "macrosway SWAYPARTS (talking_globals False) 0 (\<lambda>key. 9 / 10) 0 0 sway_start
     = Inr (1, sway_start\<lparr>lists := [[9 / 10, 0, 0, 0, 0],
                                       [3 / 4, 12 / 25, 12 / 25, 12 / 25, 12 / 25]],
                            last_sway_target_pose := Some 1,
                            last_sway_target_timestamp := Some 0,
                            sway_interval := Some 5\<rparr>)
   \<and> random_max < 3 / 4"
proof -
  have pick: "should_pick_new_sway_target (talking_globals False) 0 sway_start = Inr True"
    by (simp add: should_pick_new_sway_target_def sway_start_def example_anim_def)
  have loop: "macrosway_loop SWAYPARTS (\<lambda>key. 9 / 10) 0 1 SWAYPARTS
                [[9 / 10, 0, 0, 0, 0], [9 / 10, 0, 0, 0, 0]]
              = Inr [[9 / 10, 0, 0, 0, 0], [3 / 4, 12 / 25, 12 / 25, 12 / 25, 12 / 25]]"
    apply (subst (2) SWAYPARTS_def)
    apply (simp add: sway_keys getitem_def setitem_def uniform_def random_max_def Let_def)
    done
  show ?thesis
    using pick loop
    by (simp add: macrosway_def list_copy_def alloc_def sway_start_def example_anim_def
        random_max_def uniform_def)
qed

lemma microsway_step:
  "add_microsway SWAYPARTS (\<lambda>key. 3 / 4) 1 SWAYPARTS [[0, 0, 0, 0, 0], [v, v, v, v, v]]
     = Inr [[0, 0, 0, 0, 0],
            [max (- 1) (min (v + 1 / 100) 1), max (- 1) (min (v + 1 / 100) 1),
             max (- 1) (min (v + 1 / 100) 1), max (- 1) (min (v + 1 / 100) 1),
             max (- 1) (min (v + 1 / 100) 1)]]"
  apply (subst (2) SWAYPARTS_def)
  apply (simp add: sway_keys getitem_def setitem_def uniform_def noise_max_def Let_def)
  done

lemma sway_first_call:
  "compute_sway_target_pose SWAYPARTS (talking_globals False) 0 (\<lambda>key. 1 / 2) 0 (\<lambda>key. 3 / 4) 0
       drift_start
     = Inr (1, (drift_state (1 / 100))\<lparr>last_emotion := None\<rparr>)"
proof -
  have pick: "should_pick_new_sway_target (talking_globals False) 0 drift_start = Inr True"
    by (simp add: should_pick_new_sway_target_def drift_start_def example_anim_def)
  have loop: "macrosway_loop SWAYPARTS (\<lambda>key. 1 / 2) 0 1 SWAYPARTS
                [[0, 0, 0, 0, 0], [0, 0, 0, 0, 0]]
              = Inr [[0, 0, 0, 0, 0], [0, 0, 0, 0, 0]]"
    apply (subst (2) SWAYPARTS_def)
    apply (simp add: sway_keys getitem_def setitem_def uniform_def random_max_def Let_def)
    done
  have m: "macrosway SWAYPARTS (talking_globals False) 0 (\<lambda>key. 1 / 2) 0 0 drift_start
     = Inr (1, (drift_state 0)\<lparr>last_emotion := None\<rparr>)"
    using pick loop
    by (simp add: macrosway_def list_copy_def alloc_def drift_start_def drift_state_def
        example_anim_def uniform_def)
  show ?thesis
    using m microsway_step[of 0]
    by (simp add: compute_sway_target_pose_def drift_state_def drift_start_def example_anim_def)
qed

lemma sway_kept_call:
  assumes "0 \<le> tn" "tn < 5000000000" "- 1 \<le> v + 1 / 100" "v + 1 / 100 \<le> 1"
  shows "compute_sway_target_pose SWAYPARTS (talking_globals False) tn sd sid (\<lambda>key. 3 / 4) 0
       (drift_state v)
     = Inr (1, drift_state (v + 1 / 100))"
proof -
  have "real_of_int tn < 5000000000" using assms(2) by linarith
  then have pick: "should_pick_new_sway_target (talking_globals False) tn (drift_state v) = Inr False"
    by (simp add: should_pick_new_sway_target_def drift_state_def talking_globals_def)
  have m: "macrosway SWAYPARTS (talking_globals False) tn sd sid 0 (drift_state v)
     = Inr (1, drift_state v)"
    using pick by (simp add: macrosway_def drift_state_def)
  have c: "max (- 1) (min (v + 1 / 100) 1) = v + 1 / 100" using assms by simp
  show ?thesis
    using m microsway_step[of v] c
    by (simp add: compute_sway_target_pose_def drift_state_def)
qed

text \<open>
  Claim C2, evaluated where it fails. \<^verbatim>\<open>add_microsway\<close> writes into the list that
  \<^verbatim>\<open>macrosway\<close> returned, and that list is the cached object
  \<^verbatim>\<open>self.last_sway_target_pose\<close>. Three calls with the emotion fixed, at 0 s, 1 s
  and 2 s, inside the hold interval of 5 s (between the ticks the animator sets
  \<^verbatim>\<open>last_emotion\<close>): the macro target computed at the first call is 0 on every sway
  channel, each call draws a jitter of 0.01, and the cached list holds 0.01, then 0.02,
  then 0.03. The cache changes without a recomputation, and the returned target is
  further from the macro target than one jitter allows.
\<close>

theorem sway_cache_drifts:
  "compute_sway_target_pose SWAYPARTS (talking_globals False) 0 (\<lambda>key. 1 / 2) 0 (\<lambda>key. 3 / 4) 0
       drift_start
     = Inr (1, (drift_state (1 / 100))\<lparr>last_emotion := None\<rparr>)
   \<and> compute_sway_target_pose SWAYPARTS (talking_globals False) 1000000000 (\<lambda>key. 1 / 2) 0
       (\<lambda>key. 3 / 4) 0 (drift_state (1 / 100))
     = Inr (1, drift_state (2 / 100))
   \<and> compute_sway_target_pose SWAYPARTS (talking_globals False) 2000000000 (\<lambda>key. 1 / 2) 0
       (\<lambda>key. 3 / 4) 0 (drift_state (2 / 100))
     = Inr (1, drift_state (3 / 100))
   \<and> lists (drift_state (1 / 100)) ! 1 \<noteq> lists (drift_state (2 / 100)) ! 1
   \<and> noise_max < 3 / 100"
proof -
  have a: "compute_sway_target_pose SWAYPARTS (talking_globals False) 1000000000 (\<lambda>key. 1 / 2) 0
       (\<lambda>key. 3 / 4) 0 (drift_state (1 / 100)) = Inr (1, drift_state (2 / 100))"
    using sway_kept_call[of 1000000000 "1 / 100" "\<lambda>key. 1 / 2" 0] by simp
  have b: "compute_sway_target_pose SWAYPARTS (talking_globals False) 2000000000 (\<lambda>key. 1 / 2) 0
       (\<lambda>key. 3 / 4) 0 (drift_state (2 / 100)) = Inr (1, drift_state (3 / 100))"
    using sway_kept_call[of 2000000000 "2 / 100" "\<lambda>key. 1 / 2" 0] by simp
  show ?thesis
    using sway_first_call a b by (simp add: drift_state_def noise_max_def)
qed

section \<open>setEmotion\<close>

lemma highest_loop_keep:
  "\<forall>i \<in> set xs. score i \<le> s \<Longrightarrow> highest_loop xs (Some s) hl = (Some s, hl)"
  by (induction xs) auto

lemma highest_loop_first_max:
  assumes "\<forall>i \<in> set pre. score i < score best"
    and "\<forall>i \<in> set post. score i \<le> score best"
    and "case hs of None \<Rightarrow> True | Some s \<Rightarrow> s < score best"
  shows "highest_loop (pre @ best # post) hs hl = (Some (score best), Some (label best))"
  using assms
proof (induction pre arbitrary: hs hl)
  case Nil
  then show ?case by (auto simp: highest_loop_keep split: option.splits)
next
  case (Cons x pre)
  show ?case
  proof (cases "case hs of None \<Rightarrow> True | Some s \<Rightarrow> score x > s")
    case True
    have "highest_loop (pre @ best # post) (Some (score x)) (Some (label x))
            = (Some (score best), Some (label best))"
      using Cons.prems by (intro Cons.IH) auto
    then show ?thesis using True by simp
  next
    case False
    have "highest_loop (pre @ best # post) hs hl = (Some (score best), Some (label best))"
      using Cons.prems by (intro Cons.IH) auto
    then show ?thesis using False by simp
  qed
qed

lemma first_max_exists:
  "emotion \<noteq> [] \<Longrightarrow>
   \<exists>pre best post. emotion = pre @ best # post \<and> (\<forall>i \<in> set pre. score i < score best)
      \<and> (\<forall>i \<in> set post. score i \<le> score (best::emotion_item))"
proof (induction emotion rule: rev_induct)
  case Nil
  then show ?case by simp
next
  case (snoc x xs)
  show ?case
  proof (cases "xs = []")
    case True
    then show ?thesis by (intro exI[of _ "[]"] exI[of _ x]) simp
  next
    case False
    with snoc.IH obtain pre best post where
      d: "xs = pre @ best # post" "\<forall>i \<in> set pre. score i < score best"
         "\<forall>i \<in> set post. score i \<le> score best" by blast
    show ?thesis
    proof (cases "score x \<le> score best")
      case True
      then show ?thesis using d
        by (intro exI[of _ pre] exI[of _ best] exI[of _ "post @ [x]"]) auto
    next
      case False
      then show ?thesis using d
        by (intro exI[of _ xs] exI[of _ x] exI[of _ "[]"]) (auto simp: less_le_trans)
    qed
  qed
qed

text \<open>
  Claim C9. Once the animator exists, \<^verbatim>\<open>setEmotion\<close> on a list whose first item of
  highest score is \<open>best\<close> raises nothing: when the label of \<open>best\<close> is not among the
  loaded presets, the active emotion becomes \<^verbatim>\<open>neutral\<close> and a warning is logged
  before the info line; when it is, the active emotion becomes that label and no warning
  is logged. Every non-empty list has such an item (\<^verbatim>\<open>first_max_exists\<close>).
\<close>

theorem setEmotion_highest_label:
  assumes "global_animator_instance m = Some a"
    and "emotion = pre @ best # post"
    and "\<forall>i \<in> set pre. score i < score best"
    and "\<forall>i \<in> set post. score i \<le> score best"
  shows "setEmotion emotion m =
           (if emotions a (label best) = None
            then Inr (''emotion set to neutral'',
                      (log_append [unknown_label_warning (label best),
                                   Info ''setEmotion: applying emotion neutral''] m)
                        \<lparr>current_emotion := ''neutral''\<rparr>)
            else Inr (''emotion set to '' @ label best,
                      (log_append [Info (''setEmotion: applying emotion '' @ label best)] m)
                        \<lparr>current_emotion := label best\<rparr>))"
proof -
  have "highest_loop emotion None None = (Some (score best), Some (label best))"
    unfolding assms(2) using assms(3,4) by (intro highest_loop_first_max) simp_all
  then show ?thesis
    using assms(1)
    by (simp add: setEmotion_def py_str_def log_append_def unknown_label_warning_def)
qed

theorem setEmotion_highest_label_witness:
  "setEmotion [\<lparr>label = ''joy'', score = 1 / 5\<rparr>, \<lparr>label = ''joyyy'', score = 9 / 10\<rparr>]
      example_module
     = Inr (''emotion set to neutral'',
            example_module
              \<lparr>current_emotion := ''neutral'',
               logged := [unknown_label_warning ''joyyy'',
                          Info ''setEmotion: applying emotion neutral'']\<rparr>)"
  using setEmotion_highest_label
    [of example_module example_animator
        "[\<lparr>label = ''joy'', score = 1 / 5\<rparr>, \<lparr>label = ''joyyy'', score = 9 / 10\<rparr>]"
        "[\<lparr>label = ''joy'', score = 1 / 5\<rparr>]" "\<lparr>label = ''joyyy'', score = 9 / 10\<rparr>" "[]"]
  by (simp add: example_module_def example_animator_def log_append_def)

text \<open>
  Claim C10. Once the animator exists, \<^verbatim>\<open>setEmotion\<close> on the empty list raises
  nothing: no label is selected, \<^verbatim>\<open>None\<close> is not a preset, the warning is logged
  and the active emotion becomes \<^verbatim>\<open>neutral\<close>.
\<close>

theorem setEmotion_empty:
  assumes "global_animator_instance m = Some a"
  shows "setEmotion [] m =
           Inr (''emotion set to neutral'',
                (log_append [unknown_label_warning ''None'',
                             Info ''setEmotion: applying emotion neutral''] m)
                  \<lparr>current_emotion := ''neutral''\<rparr>)"
  using assms
  by (simp add: setEmotion_def py_str_def log_append_def unknown_label_warning_def)

theorem setEmotion_empty_witness:
  "setEmotion [] example_module
     = Inr (''emotion set to neutral'',
            example_module
              \<lparr>current_emotion := ''neutral'',
               logged := [unknown_label_warning ''None'',
                          Info ''setEmotion: applying emotion neutral'']\<rparr>)"
  using setEmotion_empty[of example_module example_animator]
  by (simp add: example_module_def log_append_def)

section \<open>The render tick and the raw-frame slot\<close>

lemma apply_emotion_slot:
  fixes self :: "('img, 'raw, 'stat, 'z) animator_scheme"
  assumes "apply_emotion_to_pose keys d p self = Inr (r, s')"
  shows "new_frame_available s' = new_frame_available self \<and> result_image s' = result_image self
         \<and> source_image s' = source_image self \<and> last_report_time s' = last_report_time self"
  using assms by (auto simp: apply_emotion_to_pose_def split: prod.splits sum.splits)

lemma sway_slot:
  fixes self :: "('img, 'raw, 'stat, 'z) animator_scheme"
  assumes "compute_sway_target_pose keys g tn dr idr nz p self = Inr (r, s')"
  shows "new_frame_available s' = new_frame_available self \<and> result_image s' = result_image self
         \<and> source_image s' = source_image self \<and> last_report_time s' = last_report_time self"
  using assms
  by (auto simp: compute_sway_target_pose_def macrosway_def
      split: prod.splits sum.splits if_splits option.splits)

lemma interpolate_slot:
  fixes self :: "('img, 'raw, 'stat, 'z) animator_scheme"
  assumes "interpolate_pose keys p t step self = Inr (r, s')"
  shows "new_frame_available s' = new_frame_available self \<and> result_image s' = result_image self
         \<and> source_image s' = source_image self \<and> last_report_time s' = last_report_time self"
  using assms by (auto simp: interpolate_pose_def split: prod.splits sum.splits)

lemma blinking_slot:
  fixes self :: "('img, 'raw, 'stat, 'z) animator_scheme"
  assumes "animate_blinking keys g rnd tn idr p self = Inr (r, s')"
  shows "new_frame_available s' = new_frame_available self \<and> result_image s' = result_image self
         \<and> source_image s' = source_image self \<and> last_report_time s' = last_report_time self"
  using assms
  by (auto simp: animate_blinking_def split: prod.splits sum.splits if_splits)

lemma talking_slot:
  fixes self :: "('img, 'raw, 'stat, 'z) animator_scheme"
  assumes "animate_talking keys g rnd p self = Inr (r, s')"
  shows "new_frame_available s' = new_frame_available self \<and> result_image s' = result_image self
         \<and> source_image s' = source_image self \<and> last_report_time s' = last_report_time self"
  using assms
  by (auto simp: animate_talking_def Let_def split: prod.splits sum.splits if_splits)

lemma breathing_slot:
  fixes self :: "('img, 'raw, 'stat, 'z) animator_scheme"
  assumes "animate_breathing keys tn p self = Inr (r, s')"
  shows "new_frame_available s' = new_frame_available self \<and> result_image s' = result_image self
         \<and> source_image s' = source_image self \<and> last_report_time s' = last_report_time self"
  using assms
  by (auto simp: animate_breathing_def Let_def split: prod.splits sum.splits if_splits)

lemma update_pose_slot:
  assumes "update_pose P env g self = Inr s'"
  shows "new_frame_available s' = new_frame_available self \<and> result_image s' = result_image self
         \<and> source_image s' = source_image self \<and> last_report_time s' = last_report_time self"
proof -
  from assms obtain d where d: "emotions self (current_emotion g) = Some d"
    by (auto simp: update_pose_def split: option.splits)
  define s1 where "s1 = (case current_pose self of
                       Some _ \<Rightarrow> self
                     | None \<Rightarrow>
                         (case alloc (posedict_to_pose P d) (lists self) of
                            (r, h) \<Rightarrow> self\<lparr>lists := h, current_pose := Some r\<rparr>))"
  define s2 where "s2 = (if Some (current_emotion g) \<noteq> last_emotion s1
                     then s1\<lparr>last_emotion_change_timestamp := Some (time_render_start env)\<rparr>
                     else s1)"
  have e2: "new_frame_available s2 = new_frame_available self \<and> result_image s2 = result_image self
         \<and> source_image s2 = source_image self \<and> last_report_time s2 = last_report_time self"
    by (auto simp: s1_def s2_def split: option.splits prod.splits)
  have eq: "update_pose P env g self =
      (case current_pose s2 of
                 None \<Rightarrow> Inl TypeError
               | Some cp \<Rightarrow>
           (case apply_emotion_to_pose (posedict_keys P) d cp s2 of
              Inl e \<Rightarrow> Inl e
            | Inr (t1, s3) \<Rightarrow>
           (case compute_sway_target_pose (posedict_keys P) g (sway_time_now env) (sway_draw env)
                   (sway_interval_draw env) (noise_draw env) t1 s3 of
              Inl e \<Rightarrow> Inl e
            | Inr (t2, s4) \<Rightarrow>
           (case interpolate_pose (posedict_keys P) cp t2 (double (1 / 10)) s4 of
              Inl e \<Rightarrow> Inl e
            | Inr (p1, s5) \<Rightarrow>
           (case animate_blinking (posedict_keys P) g (blink_draw env) (blink_time_now env)
                   (blink_interval_draw env) p1 (s5\<lparr>current_pose := Some p1\<rparr>) of
              Inl e \<Rightarrow> Inl e
            | Inr (p2, s6) \<Rightarrow>
           (case animate_talking (posedict_keys P) g (talk_draw env) p2 (s6\<lparr>current_pose := Some p2\<rparr>) of
              Inl e \<Rightarrow> Inl e
            | Inr (p3, s7) \<Rightarrow>
           (case animate_breathing (posedict_keys P) (breathing_time_now env) p3
                   (s7\<lparr>current_pose := Some p3\<rparr>) of
              Inl e \<Rightarrow> Inl e
            | Inr (p4, s8) \<Rightarrow>
                Inr (s8\<lparr>current_pose := Some p4,
                         last_emotion := Some (current_emotion g)\<rparr>))))))))"
    by (simp only: update_pose_def Let_def s1_def s2_def d option.case)
  from assms[unfolded eq] obtain cp t1 s3 t2 s4 p1 s5 p2 s6 p3 s7 p4 s8 where
    steps: "current_pose s2 = Some cp"
      "apply_emotion_to_pose (posedict_keys P) d cp s2 = Inr (t1, s3)"
      "compute_sway_target_pose (posedict_keys P) g (sway_time_now env) (sway_draw env)
                   (sway_interval_draw env) (noise_draw env) t1 s3 = Inr (t2, s4)"
      "interpolate_pose (posedict_keys P) cp t2 (double (1 / 10)) s4 = Inr (p1, s5)"
      "animate_blinking (posedict_keys P) g (blink_draw env) (blink_time_now env)
                   (blink_interval_draw env) p1 (s5\<lparr>current_pose := Some p1\<rparr>) = Inr (p2, s6)"
      "animate_talking (posedict_keys P) g (talk_draw env) p2 (s6\<lparr>current_pose := Some p2\<rparr>) = Inr (p3, s7)"
      "animate_breathing (posedict_keys P) (breathing_time_now env) p3
                   (s7\<lparr>current_pose := Some p3\<rparr>) = Inr (p4, s8)"
      "s' = s8\<lparr>current_pose := Some p4, last_emotion := Some (current_emotion g)\<rparr>"
    by (auto split: option.splits sum.splits prod.splits)
  show ?thesis
    using e2 apply_emotion_slot[OF steps(2)] sway_slot[OF steps(3)] interpolate_slot[OF steps(4)]
      blinking_slot[OF steps(5)] talking_slot[OF steps(6)] breathing_slot[OF steps(7)] steps(8)
    by simp
qed

lemma tick_key_index:
  "posedict_key_to_index tick_keys ''head_x_index'' = Inr 0"
  "posedict_key_to_index tick_keys ''head_y_index'' = Inr 1"
  "posedict_key_to_index tick_keys ''neck_z_index'' = Inr 2"
  "posedict_key_to_index tick_keys ''body_y_index'' = Inr 3"
  "posedict_key_to_index tick_keys ''body_z_index'' = Inr 4"
  "posedict_key_to_index tick_keys ''breathing_index'' = Inr 5"
  by (simp_all add: posedict_key_to_index_def tick_keys_def upt_rec)

lemma tick_apply_emotion_loop:
  "apply_emotion_loop Map.empty 1 0 tick_keys [rest_pose, rest_pose] = Inr [rest_pose, rest_pose]"
  by (simp add: tick_keys_def)

lemma tick_macrosway_loop:
  "macrosway_loop tick_keys (\<lambda>key. 1 / 2) 1 2 SWAYPARTS [rest_pose, rest_pose, rest_pose]
     = Inr [rest_pose, rest_pose, rest_pose]"
  by (simp add: SWAYPARTS_def tick_key_index getitem_def setitem_def uniform_def random_max_def Let_def)

lemma tick_add_microsway:
  "add_microsway tick_keys (\<lambda>key. 1 / 2) 2 SWAYPARTS [rest_pose, rest_pose, rest_pose]
     = Inr [rest_pose, rest_pose, rest_pose]"
  by (simp add: SWAYPARTS_def tick_key_index getitem_def setitem_def uniform_def noise_max_def Let_def)

lemma tick_interpolate_loop:
  "interpolate_loop 0 2 (double (1 / 10)) 3 0 tick_keys [rest_pose, rest_pose, rest_pose, rest_pose]
     = Inr [rest_pose, rest_pose, rest_pose, rest_pose]"
  by (simp add: tick_keys_def getitem_def setitem_def Let_def double_def)

lemma tick_update_pose:
  "update_pose tick_collaborators tick_readings tick_globals tick_animator = Inr tick_posed"
proof -
  let ?s2 = "tick_animator\<lparr>lists := [rest_pose], current_pose := Some 0,
                            last_emotion_change_timestamp := Some 0\<rparr>"
  have a: "apply_emotion_to_pose tick_keys Map.empty 0 ?s2 = Inr (1, ?s2\<lparr>lists := [rest_pose, rest_pose]\<rparr>)"
    using tick_apply_emotion_loop
    by (simp add: eval_nat_numeral apply_emotion_to_pose_def list_copy_def alloc_def
        tick_animator_def)
  let ?s3 = "?s2\<lparr>lists := [rest_pose, rest_pose]\<rparr>"
  let ?s4 = "?s3\<lparr>lists := [rest_pose, rest_pose, rest_pose], last_sway_target_pose := Some 2,
                  last_sway_target_timestamp := Some 0, sway_interval := Some 5\<rparr>"
  have b: "compute_sway_target_pose tick_keys tick_globals 0 (\<lambda>key. 1 / 2) 0 (\<lambda>key. 1 / 2) 1 ?s3
             = Inr (2, ?s4)"
    using tick_macrosway_loop tick_add_microsway
    by (simp add: eval_nat_numeral compute_sway_target_pose_def macrosway_def should_pick_new_sway_target_def
        list_copy_def alloc_def tick_animator_def tick_globals_def talking_globals_def uniform_def)
  let ?s5 = "?s4\<lparr>lists := [rest_pose, rest_pose, rest_pose, rest_pose]\<rparr>"
  have c: "interpolate_pose tick_keys 0 2 (double (1 / 10)) ?s4 = Inr (3, ?s5)"
    using tick_interpolate_loop
    by (simp add: eval_nat_numeral interpolate_pose_def list_copy_def alloc_def
        tick_animator_def)
  let ?s6 = "?s5\<lparr>current_pose := Some 3\<rparr>"
  have d: "animate_blinking tick_keys tick_globals (1 / 2) 0 0 3 ?s6 = Inr (3, ?s6)"
    by (simp add: eval_nat_numeral animate_blinking_def blink_gate_def tick_animator_def)
  have e: "animate_talking tick_keys tick_globals (1 / 2) 3 ?s6 = Inr (3, ?s6)"
    by (simp add: eval_nat_numeral animate_talking_def tick_globals_def talking_globals_def)
  have f: "animate_breathing tick_keys 0 3 ?s6 = Inr (4, ?s6\<lparr>lists := [rest_pose, rest_pose, rest_pose, rest_pose, rest_pose]\<rparr>)"
    by (simp add: eval_nat_numeral animate_breathing_def breathing_cycle_pos_def py_int_def list_copy_def alloc_def
        tick_key_index setitem_def tick_animator_def Let_def)
  have em: "emotions tick_animator (current_emotion tick_globals) = Some Map.empty"
    by (simp add: eval_nat_numeral tick_animator_def tick_globals_def talking_globals_def)
  show ?thesis
    using em a b c d e f
    by (simp add: eval_nat_numeral update_pose_def Let_def tick_collaborators_def
        tick_readings_def alloc_def tick_animator_def tick_posed_def tick_globals_def
        talking_globals_def)
qed

lemma tick_render:
  "render_animation_frame tick_collaborators tick_readings tick_globals tick_animator
     = Inr (tick_globals\<lparr>logged := [RenderReport (1 / 50)]\<rparr>, tick_published)"
proof -
  have g: "animation_running tick_globals" "global_reload_image tick_globals = None"
    "logged tick_globals = []"
    by (simp_all add: tick_globals_def talking_globals_def)
  have a: "\<not> new_frame_available tick_animator" "source_image tick_animator = Some ()"
    by (simp_all add: tick_animator_def)
  have p: "current_pose tick_posed = Some 4" "lists tick_posed ! 4 = rest_pose"
    "source_image tick_posed \<noteq> None" "render_duration_statistics tick_posed = []"
    "last_report_time tick_posed = None"
    by (simp_all add: tick_posed_def tick_animator_def eval_nat_numeral)
  have c: "render_pose tick_collaborators () rest_pose = Some rest_pose"
    "add_datapoint tick_collaborators x [] = [x]"
    "average tick_collaborators [x] = x"
    "time_render_end tick_readings = 20000000" "time_render_start tick_readings = 0" for x
    by (simp_all add: tick_collaborators_def tick_readings_def)
  show ?thesis
    by (simp add: render_animation_frame_def g a tick_update_pose p c Let_def log_append_def
        tick_published_def)
qed

lemma load_image_slot:
  assumes "load_image P fp g self = (g', s')"
  shows "new_frame_available s' = new_frame_available self \<and> result_image s' = result_image self"
  using assms by (auto simp: load_image_def split: load_result.splits)

text \<open>
  Claim C4. A render tick that starts with \<^verbatim>\<open>new_frame_available\<close> set does nothing:
  globals and animator are returned as they were (no image reload, no pose update, no
  rendering, \<^verbatim>\<open>result_image\<close> and the flag unchanged). And whatever a tick that
  returns does, it either leaves \<^verbatim>\<open>result_image\<close> and the flag as they were, or it
  found the flag clear, stored an image and set the flag: the slot is only written when
  the previous frame has been consumed. The flag is read at the start of the tick and
  written at its end; in between only the encoder writes it, and only to clear it, so
  taking the tick as one step loses nothing for this flag.
\<close>

theorem render_animation_frame_single_slot:
  "(new_frame_available self \<longrightarrow> render_animation_frame P env g self = Inr (g, self))
   \<and> (render_animation_frame P env g self = Inr (g', self') \<longrightarrow>
        (result_image self' = result_image self
           \<and> new_frame_available self' = new_frame_available self)
        \<or> (\<not> new_frame_available self \<and> new_frame_available self'
             \<and> result_image self' \<noteq> None))"
proof (intro conjI impI)
  assume "new_frame_available self"
  then show "render_animation_frame P env g self = Inr (g, self)"
    by (simp add: render_animation_frame_def)
next
  assume r: "render_animation_frame P env g self = Inr (g', self')"
  show "(result_image self' = result_image self
           \<and> new_frame_available self' = new_frame_available self)
        \<or> (\<not> new_frame_available self \<and> new_frame_available self'
             \<and> result_image self' \<noteq> None)"
  proof (cases "\<not> animation_running g \<or> new_frame_available self")
    case True
    then have "render_animation_frame P env g self = Inr (g, self)"
      by (auto simp: render_animation_frame_def)
    with r show ?thesis by simp
  next
    case False
    obtain g1 s1 where l: "(if global_reload_image g \<noteq> None then load_image P None g self
                  else (g, self)) = (g1, s1)" by (cases "(if global_reload_image g \<noteq> None then load_image P None g self
                  else (g, self))") 
    have s1: "new_frame_available s1 = new_frame_available self \<and> result_image s1 = result_image self"
      using l load_image_slot[of P None g self g1 s1] by (auto split: if_splits)
    show ?thesis
    proof (cases "source_image s1")
      case None
      then have "render_animation_frame P env g self = Inr (g1, s1)"
        using False l by (simp add: render_animation_frame_def)
      with r s1 show ?thesis by simp
    next
      case (Some src)
      from r False l Some obtain s2 cp out where
        u: "update_pose P env g1 s1 = Inr s2" and "current_pose s2 = Some cp"
        and "render_pose P src (lists s2 ! cp) = Some out"
        by (auto simp: render_animation_frame_def split: sum.splits option.splits)
      with r False l Some have "new_frame_available self' \<and> result_image self' = Some out"
        by (auto simp: render_animation_frame_def Let_def split: if_splits)
      then show ?thesis using False by simp
    qed
  qed
qed

theorem render_animation_frame_single_slot_witness:
  "render_animation_frame tick_collaborators tick_readings tick_globals tick_animator
     = Inr (tick_globals\<lparr>logged := [RenderReport (1 / 50)]\<rparr>, tick_published)
   \<and> \<not> new_frame_available tick_animator
   \<and> new_frame_available tick_published
   \<and> result_image tick_published \<noteq> None
   \<and> render_animation_frame tick_collaborators tick_readings
         (tick_globals\<lparr>logged := [RenderReport (1 / 50)]\<rparr>) tick_published
       = Inr (tick_globals\<lparr>logged := [RenderReport (1 / 50)]\<rparr>, tick_published)"
proof -
  have f: "new_frame_available tick_published" "result_image tick_published \<noteq> result_image tick_animator"
    by (simp_all add: tick_published_def tick_posed_def tick_animator_def)
  show ?thesis
    using tick_render f
      render_animation_frame_single_slot
        [of tick_animator tick_collaborators tick_readings tick_globals
            "tick_globals\<lparr>logged := [RenderReport (1 / 50)]\<rparr>" tick_published]
      render_animation_frame_single_slot
        [of tick_published tick_collaborators tick_readings
            "tick_globals\<lparr>logged := [RenderReport (1 / 50)]\<rparr>"
            "tick_globals\<lparr>logged := [RenderReport (1 / 50)]\<rparr>" tick_published]
    by auto
qed

section \<open>The encoder and the delivery mark\<close>

lemma wait_until_sent_Some:
  "wait_until_sent pid ps = Some poll \<Longrightarrow>
     poll \<in> set ps \<and> (fst poll = Some pid \<or> snd poll)"
  by (induction ps) (auto split: if_splits)

lemma wait_until_sent_None:
  "wait_until_sent pid ps = None \<longleftrightarrow> (\<forall>poll \<in> set ps. fst poll \<noteq> Some pid \<and> \<not> snd poll)"
proof (induction ps)
  case Nil
  show ?case by simp
next
  case (Cons p ps)
  obtain s t where p: "p = (s, t)" by (cases p)
  show ?case
  proof (cases "s \<noteq> Some pid \<and> \<not> t")
    case True
    then show ?thesis using Cons.IH p by simp
  next
    case False
    then show ?thesis using p by auto
  qed
qed

lemma encoder_report_image:
  "encoder_report P env g self = (g', self') \<Longrightarrow> image_bytes self' = image_bytes self"
  by (auto simp: encoder_report_def split: if_splits)

lemma encoder_iteration_replaces:
  assumes "encoder_iteration P env g a self = Some (Inr (g', a', self'))"
    and "image_bytes self = Some prev"
    and "image_bytes self' \<noteq> Some prev"
  shows "\<exists>poll \<in> set (polls env). fst poll = Some (obj_id prev) \<or> snd poll"
proof (cases "new_frame_available a")
  case False
  with assms(1) have "image_bytes self' = image_bytes self"
    by (auto simp: encoder_iteration_def dest: encoder_report_image split: prod.splits)
  with assms(2,3) show ?thesis by simp
next
  case True
  with assms(1,2) obtain poll where "wait_until_sent (obj_id prev) (polls env) = Some poll"
    by (auto simp: encoder_iteration_def Let_def split: sum.splits option.splits prod.splits)
  from wait_until_sent_Some[OF this] show ?thesis by blast
qed

lemma encoder_update_Cons:
  "encoder_update P ((env, g, a) # rest) self \<noteq> [] \<Longrightarrow>
   \<exists>g' a' self'. \<not> terminated_at_loop_head env
      \<and> encoder_iteration P env g a self = Some (Inr (g', a', self'))
      \<and> encoder_update P ((env, g, a) # rest) self = (g', a', self') # encoder_update P rest self'"
  by (auto split: if_splits option.splits sum.splits)

lemma enc_run:
  "map (\<lambda>(g, a, s). image_bytes s) (encoder_update tick_collaborators enc_inputs enc_start)
     = [Some (enc_frame 7), Some (enc_frame 8)]"
proof -
  have a: "new_frame_available tick_published" "result_image tick_published = Some rest_pose"
    by (simp_all add: tick_published_def)
  have c: "png_encode tick_collaborators rest_pose = Some rest_pose" by (simp add: tick_collaborators_def)
  show ?thesis
    by (simp add: enc_inputs_def enc_readings_def encoder_iteration_def a c Let_def
        encoder_report_def enc_start_def enc_frame_def split: prod.splits)
qed

text \<open>
  Claim C3. In every run of the encoder loop, whenever an iteration starts with an
  encoded frame \<open>prev\<close> published and ends with \<^verbatim>\<open>image_bytes\<close> replaced, the wait
  loop of that iteration has polled \<^verbatim>\<open>global_latest_frame_sent\<close> equal to
  \<^verbatim>\<open>id(prev)\<close>, or the termination flag set: a published frame is not overwritten
  before the delivery mark has named it, except at shutdown. While no poll does so the
  iteration does not complete (\<^verbatim>\<open>wait_until_sent_None\<close>).
\<close>

theorem encoder_update_waits_for_delivery:
  assumes "i < length (encoder_update P inputs self)"
    and "image_bytes (encoder_states self (encoder_update P inputs self) ! i) = Some prev"
    and "image_bytes (encoder_states self (encoder_update P inputs self) ! Suc i) \<noteq> Some prev"
  shows "i < length inputs
         \<and> (\<exists>poll \<in> set (polls (fst (inputs ! i))). fst poll = Some (obj_id prev) \<or> snd poll)"
  using assms
proof (induction inputs arbitrary: self i)
  case Nil
  then show ?case by simp
next
  case (Cons inp rest)
  obtain env g a where inp: "inp = (env, g, a)" by (cases inp)
  from Cons.prems(1) have ne: "encoder_update P ((env, g, a) # rest) self \<noteq> []"
    unfolding inp by auto
  from encoder_update_Cons[OF ne] obtain g' a' self' where
    it: "encoder_iteration P env g a self = Some (Inr (g', a', self'))"
    and tr: "encoder_update P ((env, g, a) # rest) self = (g', a', self') # encoder_update P rest self'"
    by blast
  have st: "encoder_states self (encoder_update P (inp # rest) self)
              = self # encoder_states self' (encoder_update P rest self')"
    unfolding inp tr by (simp add: encoder_states_def)
  show ?case
  proof (cases i)
    case 0
    have "image_bytes self = Some prev" "image_bytes self' \<noteq> Some prev"
      using Cons.prems(2,3) unfolding st 0 by (simp_all add: encoder_states_def)
    from encoder_iteration_replaces[OF it this] show ?thesis
      using 0 inp by simp
  next
    case (Suc j)
    have "j < length (encoder_update P rest self')"
      using Cons.prems(1) unfolding inp tr Suc by simp
    moreover have "image_bytes (encoder_states self' (encoder_update P rest self') ! j) = Some prev"
      using Cons.prems(2) unfolding st Suc by simp
    moreover have "image_bytes (encoder_states self' (encoder_update P rest self') ! Suc j) \<noteq> Some prev"
      using Cons.prems(3) unfolding st Suc by simp
    ultimately have "j < length rest
         \<and> (\<exists>poll \<in> set (polls (fst (rest ! j))). fst poll = Some (obj_id prev) \<or> snd poll)"
      by (rule Cons.IH)
    then show ?thesis using Suc by simp
  qed
qed

theorem encoder_update_waits_for_delivery_witness:
  "1 < length (encoder_update tick_collaborators enc_inputs enc_start)
   \<and> image_bytes (encoder_states enc_start
                      (encoder_update tick_collaborators enc_inputs enc_start) ! 1)
       = Some (enc_frame 7)
   \<and> image_bytes (encoder_states enc_start
                      (encoder_update tick_collaborators enc_inputs enc_start) ! 2)
       = Some (enc_frame 8)
   \<and> (\<exists>poll \<in> set (polls (fst (enc_inputs ! 1))). fst poll = Some 7 \<or> snd poll)"
proof -
  let ?tr = "encoder_update tick_collaborators enc_inputs enc_start"
  have len: "length ?tr = 2" using arg_cong[OF enc_run, of length] by simp
  have st: "map image_bytes (encoder_states enc_start ?tr)
              = [None, Some (enc_frame 7), Some (enc_frame 8)]"
    using enc_run by (simp add: encoder_states_def enc_start_def comp_def case_prod_unfold)
  have n1: "image_bytes (encoder_states enc_start ?tr ! 1) = Some (enc_frame 7)"
    using arg_cong[OF st, of "\<lambda>xs. xs ! 1"] len by (simp add: encoder_states_def)
  have n2: "image_bytes (encoder_states enc_start ?tr ! 2) = Some (enc_frame 8)"
    using arg_cong[OF st, of "\<lambda>xs. xs ! 2"] len by (simp add: encoder_states_def)
  have ne: "image_bytes (encoder_states enc_start ?tr ! Suc 1) \<noteq> Some (enc_frame 7)"
    using n2 by (simp add: enc_frame_def numeral_2_eq_2)
  have i: "1 < length ?tr" using len by simp
  from encoder_update_waits_for_delivery[OF i n1 ne]
  show ?thesis using i n1 n2 by (simp add: enc_frame_def)
qed

end
